theory Spec2Isabelle
  imports
    Complex_Main
    "HOL-Library.Char_ord"
    "HOL-Library.List_Lexorder"
    "HOL-Library.AList"
    "HOL-Library.Sublist"
    "HOL-Library.Multiset"
begin

section \<open>The interactive data analysis dashboard (\<^verbatim>\<open>src/app.py\<close>)\<close>

text \<open>
  \<^verbatim>\<open>app.py\<close> is one function, \<^verbatim>\<open>main\<close>, run top to bottom on every interaction. It
  loads a table with pandas, copies it, cleans the copy (missing values, column drop),
  previews and summarises it, draws one plot and offers a text report for download.

  The embedding follows that order. The pandas calls the program makes are library code;
  they are modelled here by what they compute on the values the program hands them
  (pandas 2.x, default arguments, where text columns have dtype \<^verbatim>\<open>object\<close>):
  \<^item> a float64 cell is an exact rational or NaN (\<open>None\<close>): rounding, infinities and
    overflow of binary floating point are not modelled;
  \<^item> a column label is a string or an integer (\<^verbatim>\<open>read_excel\<close> keeps a numeric header
    cell as a number; \<^verbatim>\<open>read_csv\<close> makes every label a string), and the labels of a
    loaded table are distinct (both loaders rename duplicates);
  \<^item> an \<^verbatim>\<open>object\<close> column holds strings or NaN, as \<^verbatim>\<open>read_csv\<close> infers for
    text;
  \<^item> renderings whose layout is the library's business (\<^verbatim>\<open>DataFrame.info\<close>,
    \<^verbatim>\<open>to_string\<close>) and the plotting calls (matplotlib, seaborn) are parameters of
    the model, collected in the record \<open>env\<close>.
\<close>

subsection \<open>Tables\<close>

datatype error = KeyError | ValueError | TypeError | LibraryError string

datatype label = StrLabel string | IntLabel int

text \<open>
  The dtypes a loaded column can have. \<^verbatim>\<open>pd.api.types.is_numeric_dtype\<close> holds of
  \<^verbatim>\<open>int64\<close>, \<^verbatim>\<open>float64\<close> and \<^verbatim>\<open>bool\<close>; only a \<^verbatim>\<open>float64\<close>,
  \<^verbatim>\<open>datetime64\<close> or \<^verbatim>\<open>object\<close> column can hold a missing value.
\<close>

datatype numeric =
    Int64 "int list"
  | Float64 "rat option list"
  | Bool "bool list"

datatype column =
    Numeric numeric
  | Datetime64 "int option list"
  | Object "string option list"

record dataframe =
  index :: "nat list"
  columns :: "(label \<times> column) list"

fun is_numeric_dtype :: "column \<Rightarrow> bool" where
  "is_numeric_dtype (Numeric _) = True"
| "is_numeric_dtype _ = False"

text \<open>\<^verbatim>\<open>dtype == 'object'\<close>, and \<^verbatim>\<open>select_dtypes(include=['object', 'category'])\<close>
  (no loaded column is categorical).\<close>

fun is_object_dtype :: "column \<Rightarrow> bool" where
  "is_object_dtype (Object _) = True"
| "is_object_dtype _ = False"

text \<open>\<^verbatim>\<open>select_dtypes(include=['number'])\<close>: integers and floats, not booleans.\<close>

fun is_number_dtype :: "column \<Rightarrow> bool" where
  "is_number_dtype (Numeric (Int64 _)) = True"
| "is_number_dtype (Numeric (Float64 _)) = True"
| "is_number_dtype _ = False"

subsection \<open>Series operations\<close>

fun isnull :: "column \<Rightarrow> bool list" where
  "isnull (Numeric (Int64 xs)) = map (\<lambda>_. False) xs"
| "isnull (Numeric (Float64 xs)) = map (\<lambda>x. x = None) xs"
| "isnull (Numeric (Bool xs)) = map (\<lambda>_. False) xs"
| "isnull (Datetime64 xs) = map (\<lambda>x. x = None) xs"
| "isnull (Object xs) = map (\<lambda>x. x = None) xs"

definition isnull_any :: "column \<Rightarrow> bool" where
  "isnull_any c = (True \<in> set (isnull c))"

definition isnull_sum :: "column \<Rightarrow> nat" where
  "isnull_sum c = length (filter (\<lambda>b. b) (isnull c))"

text \<open>The values that are present, in row order.\<close>

fun notna_values :: "'a option list \<Rightarrow> 'a list" where
  "notna_values [] = []"
| "notna_values (None # xs) = notna_values xs"
| "notna_values (Some v # xs) = v # notna_values xs"

text \<open>The mean of the present values; NaN when there is none.\<close>

definition nanmean :: "rat list \<Rightarrow> rat option" where
  "nanmean vs = (if vs = [] then None else Some (sum_list vs / of_nat (length vs)))"

fun as_float :: "numeric \<Rightarrow> rat option list" where
  "as_float (Int64 xs) = map (\<lambda>i. Some (of_int i)) xs"
| "as_float (Float64 xs) = xs"
| "as_float (Bool xs) = map (\<lambda>b. Some (if b then 1 else 0)) xs"

text \<open>\<^verbatim>\<open>Series.mean()\<close> of a numeric column (\<^verbatim>\<open>skipna=True\<close>).\<close>

definition mean :: "numeric \<Rightarrow> rat option" where
  "mean x = nanmean (notna_values (as_float x))"

text \<open>
  \<^verbatim>\<open>Series.mode()\<close> (\<^verbatim>\<open>dropna=True\<close>): the present values of the highest count, sorted
  ascending. The result is empty when no value is present.
\<close>

definition max_count :: "'a list \<Rightarrow> nat" where
  "max_count vs = fold max (map (count_list vs) vs) 0"

definition mode :: "('a :: linorder) option list \<Rightarrow> 'a list" where
  "mode xs =
     (let vs = notna_values xs
      in sort (filter (\<lambda>v. count_list vs v = max_count vs) (remdups vs)))"

text \<open>\<^verbatim>\<open>s[0]\<close> on the fresh result of \<^verbatim>\<open>mode()\<close>: label 0 is its first row, and
  is missing (\<^verbatim>\<open>KeyError\<close>) when the result is empty.\<close>

fun getitem0 :: "'a list \<Rightarrow> error + 'a" where
  "getitem0 [] = Inl KeyError"
| "getitem0 (v # _) = Inr v"

text \<open>\<^verbatim>\<open>Series.fillna(value)\<close>. The value given to a float column may itself be NaN.\<close>

definition fillna :: "'a option \<Rightarrow> 'a option list \<Rightarrow> 'a option list" where
  "fillna fill_value xs = map (\<lambda>x. case x of None \<Rightarrow> fill_value | Some v \<Rightarrow> Some v) xs"

fun fillna_numeric :: "rat option \<Rightarrow> numeric \<Rightarrow> numeric" where
  "fillna_numeric fill_value (Float64 xs) = Float64 (fillna fill_value xs)"
| "fillna_numeric fill_value (Int64 xs) = Int64 xs"
| "fillna_numeric fill_value (Bool xs) = Bool xs"

text \<open>\<^verbatim>\<open>astype(str)\<close> on an \<^verbatim>\<open>object\<close> column: \<^verbatim>\<open>str\<close> of every element; NaN
  becomes the text \<^verbatim>\<open>nan\<close>.\<close>

fun astype_str :: "column \<Rightarrow> column" where
  "astype_str (Object xs) = Object (map (\<lambda>x. Some (case x of None \<Rightarrow> ''nan'' | Some s \<Rightarrow> s)) xs)"
| "astype_str c = c"

subsection \<open>DataFrame operations\<close>

definition shape :: "dataframe \<Rightarrow> nat \<times> nat" where
  "shape d = (length (index d), length (columns d))"

definition column_names :: "dataframe \<Rightarrow> label list" where
  "column_names d = map fst (columns d)"

text \<open>\<^verbatim>\<open>d[col]\<close> and \<^verbatim>\<open>d[col] = c\<close>.\<close>

definition getitem :: "dataframe \<Rightarrow> label \<Rightarrow> column option" where
  "getitem d col = map_of (columns d) col"

definition setitem :: "dataframe \<Rightarrow> label \<Rightarrow> column \<Rightarrow> dataframe" where
  "setitem d col c = d\<lparr>columns := AList.update col c (columns d)\<rparr>"

text \<open>Rows chosen by a mask, and the first \<open>n\<close> rows.\<close>

definition select :: "bool list \<Rightarrow> 'a list \<Rightarrow> 'a list" where
  "select msk xs = map snd (filter fst (zip msk xs))"

fun select_rows :: "bool list \<Rightarrow> column \<Rightarrow> column" where
  "select_rows msk (Numeric (Int64 xs)) = Numeric (Int64 (select msk xs))"
| "select_rows msk (Numeric (Float64 xs)) = Numeric (Float64 (select msk xs))"
| "select_rows msk (Numeric (Bool xs)) = Numeric (Bool (select msk xs))"
| "select_rows msk (Datetime64 xs) = Datetime64 (select msk xs)"
| "select_rows msk (Object xs) = Object (select msk xs)"

fun take_rows :: "nat \<Rightarrow> column \<Rightarrow> column" where
  "take_rows n (Numeric (Int64 xs)) = Numeric (Int64 (take n xs))"
| "take_rows n (Numeric (Float64 xs)) = Numeric (Float64 (take n xs))"
| "take_rows n (Numeric (Bool xs)) = Numeric (Bool (take n xs))"
| "take_rows n (Datetime64 xs) = Datetime64 (take n xs)"
| "take_rows n (Object xs) = Object (take n xs)"

text \<open>\<^verbatim>\<open>DataFrame.head()\<close>: the first five rows.\<close>

definition head :: "dataframe \<Rightarrow> dataframe" where
  "head d = \<lparr>index = take 5 (index d), columns = map (\<lambda>(n, c). (n, take_rows 5 c)) (columns d)\<rparr>"

text \<open>\<^verbatim>\<open>DataFrame.dropna()\<close>: a row stays when no column is missing there.\<close>

definition notna_rows :: "dataframe \<Rightarrow> bool list" where
  "notna_rows d =
     fold (\<lambda>(n, c) msk. map (\<lambda>(keep, missing). keep \<and> \<not> missing) (zip msk (isnull c)))
       (columns d) (map (\<lambda>_. True) (index d))"

definition dropna :: "dataframe \<Rightarrow> dataframe" where
  "dropna d =
     (let msk = notna_rows d
      in \<lparr>index = select msk (index d),
          columns = map (\<lambda>(n, c). (n, select_rows msk c)) (columns d)\<rparr>)"

text \<open>\<^verbatim>\<open>DataFrame.drop(columns=labels)\<close>: a label that is no column is a
  \<^verbatim>\<open>KeyError\<close>; the index stays.\<close>

definition drop_columns :: "label list \<Rightarrow> dataframe \<Rightarrow> error + dataframe" where
  "drop_columns labels d =
     (if \<exists>l \<in> set labels. l \<notin> set (column_names d) then Inl KeyError
      else Inr (d\<lparr>columns := filter (\<lambda>(n, c). n \<notin> set labels) (columns d)\<rparr>))"

text \<open>\<^verbatim>\<open>DataFrame.isnull().sum()\<close>: the missing entries of each column.\<close>

definition isnull_sums :: "dataframe \<Rightarrow> (label \<times> nat) list" where
  "isnull_sums d = map (\<lambda>(n, c). (n, isnull_sum c)) (columns d)"

text \<open>\<^verbatim>\<open>DataFrame.describe()\<close> refuses a table without columns
  (\<^verbatim>\<open>ValueError: Cannot describe a DataFrame without columns\<close>). The statistics
  themselves are rendered by the library; the model keeps the table they are taken from.\<close>

datatype description = Describe dataframe

definition describe :: "dataframe \<Rightarrow> error + description" where
  "describe d = (if columns d = [] then Inl ValueError else Inr (Describe d))"

subsection \<open>Text\<close>

text \<open>\<^verbatim>\<open>str\<close> of a natural number, of an integer, of a shape tuple and of a label, and
  \<^verbatim>\<open>sep.join\<close>.\<close>

fun str_nat :: "nat \<Rightarrow> string" where
  "str_nat n =
     (if n < 10 then [''0123456789'' ! n]
      else str_nat (n div 10) @ [''0123456789'' ! (n mod 10)])"

definition str_shape :: "nat \<times> nat \<Rightarrow> string" where
  "str_shape s = ''('' @ str_nat (fst s) @ '', '' @ str_nat (snd s) @ '')''"

definition str_int :: "int \<Rightarrow> string" where
  "str_int i = (if i < 0 then ''-'' @ str_nat (nat (- i)) else str_nat (nat i))"

fun str_label :: "label \<Rightarrow> string" where
  "str_label (StrLabel s) = s"
| "str_label (IntLabel i) = str_int i"

fun join :: "string \<Rightarrow> string list \<Rightarrow> string" where
  "join sep [] = []"
| "join sep [x] = x"
| "join sep (x # y # ys) = x @ sep @ join sep (y # ys)"

text \<open>\<^verbatim>\<open>sep.join\<close> on a list of labels: an item that is not a string is a
  \<^verbatim>\<open>TypeError\<close>.\<close>

fun is_str :: "label \<Rightarrow> bool" where
  "is_str (StrLabel s) = True"
| "is_str (IntLabel i) = False"

definition join_labels :: "string \<Rightarrow> label list \<Rightarrow> error + string" where
  "join_labels sep ls =
     (if list_all is_str ls then Inr (join sep (map str_label ls)) else Inl TypeError)"

subsection \<open>Objects and references\<close>

text \<open>
  A Python variable holds a reference. The store is the list of the DataFrame objects
  made so far; a reference is a position in it. \<^verbatim>\<open>df.copy()\<close>, \<^verbatim>\<open>df.head()\<close> and
  \<^verbatim>\<open>df.drop(columns=...)\<close> make a new object; \<^verbatim>\<open>dropna(inplace=True)\<close> and
  \<^verbatim>\<open>df[col] = ...\<close> change the object they are called on.
\<close>

type_synonym store = "dataframe list"

definition alloc :: "store \<Rightarrow> dataframe \<Rightarrow> store \<times> nat" where
  "alloc h d = (h @ [d], length h)"

definition copy_df :: "store \<Rightarrow> nat \<Rightarrow> store \<times> nat" where
  "copy_df h a = alloc h (h ! a)"

subsection \<open>What a run shows, and what it is given\<close>

datatype chart =
    Histplot column nat string
  | Boxplot column string
  | Scatterplot column column "column option" string
  | Barplot "(string \<times> rat option) list" string
  | Heatmap "(label \<times> column) list" string

datatype element =
    Title string
  | Write string
  | Header string
  | Subheader string
  | Expander string
  | Success string
  | Info string
  | Error string
  | Warning string
  | Text string
  | Dataframe dataframe
  | WriteShape string "nat \<times> nat"
  | WriteDescription description
  | WriteCounts "(label \<times> nat) list"
  | Pyplot chart
  | DownloadButton string string string string

datatype strategy = NoStrategy | DropRows | FillMissing

datatype plot_kind = Histogram | BoxPlot | ScatterPlot | BarChart | CorrelationHeatmap

text \<open>The state of the widgets: what the user has picked. A select box holds the
  position of the picked option, the multiselect the picked labels.\<close>

record widgets =
  sheet_name :: nat
  missing_value_strategy :: strategy
  columns_to_drop :: "label list"
  plot_type :: plot_kind
  column :: nat
  bins :: nat
  x_axis :: nat
  y_axis :: nat
  hue :: nat
  cat_column :: nat
  num_column :: nat

text \<open>
  \<^verbatim>\<open>st.selectbox\<close> returns the picked option, the first one when the stored pick is out
  of range, and \<^verbatim>\<open>None\<close> when there is no option. \<^verbatim>\<open>st.multiselect\<close> returns picked
  options only. \<^verbatim>\<open>st.slider\<close> returns a value within its bounds, else its default.
\<close>

definition selectbox :: "'a list \<Rightarrow> nat \<Rightarrow> 'a option" where
  "selectbox options i =
     (case options of [] \<Rightarrow> None
      | x # _ \<Rightarrow> Some (if i < length options then options ! i else x))"

definition multiselect :: "'a list \<Rightarrow> 'a list \<Rightarrow> 'a list" where
  "multiselect options picked = filter (\<lambda>x. x \<in> set options) picked"

definition slider :: "nat \<Rightarrow> nat \<Rightarrow> nat \<Rightarrow> nat \<Rightarrow> nat" where
  "slider min_value max_value dflt v = (if min_value \<le> v \<and> v \<le> max_value then v else dflt)"

text \<open>Python's truth value of a picked label, as in \<^verbatim>\<open>if column:\<close>: the empty string
  and zero are false (and so is \<^verbatim>\<open>None\<close>, the result of a select box without options,
  which the plot definitions below treat by a case on the result).\<close>

fun truthy :: "label \<Rightarrow> bool" where
  "truthy (StrLabel s) = (s \<noteq> [])"
| "truthy (IntLabel i) = (i \<noteq> 0)"

text \<open>
  The library calls the model does not look into: the text \<^verbatim>\<open>DataFrame.info\<close> writes,
  the fixed-width \<^verbatim>\<open>to_string\<close> renderings, and a plot (\<^verbatim>\<open>plt.subplots\<close>, the seaborn
  or pandas plotting call, \<^verbatim>\<open>st.pyplot\<close>), which draws or raises.
\<close>

record env =
  info :: "dataframe \<Rightarrow> string"
  description_to_string :: "description \<Rightarrow> string"
  counts_to_string :: "(label \<times> nat) list \<Rightarrow> string"
  draw :: "chart \<Rightarrow> error option"

text \<open>How a run ends: at the last line, at \<^verbatim>\<open>st.stop()\<close>, or with an exception that
  leaves \<^verbatim>\<open>main\<close>.\<close>

datatype run_end = Completed | Stopped | Raised error

subsection \<open>Cleaning (lines 58 to 98)\<close>

text \<open>
  The loop of the strategy \<^verbatim>\<open>Fill with Mean/Median/Mode\<close>, over the labels the table had
  when the loop began. It works on the table in place, so it returns the table as the
  loop left it, and the exception when one ended the loop: \<^verbatim>\<open>mode()[0]\<close> raises when
  the column has no value at all.
\<close>

fun fill_loop :: "label list \<Rightarrow> dataframe \<Rightarrow> dataframe \<times> error option" where
  "fill_loop [] d = (d, None)"
| "fill_loop (col # cols) d =
     (case getitem d col of
        None \<Rightarrow> (d, Some KeyError)
      | Some c \<Rightarrow>
          if isnull_any c then
            (case c of
               Numeric x \<Rightarrow>
                 (let fill_value = mean x
                  in fill_loop cols (setitem d col (Numeric (fillna_numeric fill_value x))))
             | Datetime64 xs \<Rightarrow>
                 (case getitem0 (mode xs) of
                    Inl e \<Rightarrow> (d, Some e)
                  | Inr fill_value \<Rightarrow>
                      fill_loop cols (setitem d col (Datetime64 (fillna (Some fill_value) xs))))
             | Object xs \<Rightarrow>
                 (case getitem0 (mode xs) of
                    Inl e \<Rightarrow> (d, Some e)
                  | Inr fill_value \<Rightarrow>
                      fill_loop cols (setitem d col (Object (fillna (Some fill_value) xs)))))
          else fill_loop cols d)"

definition fill_missing :: "dataframe \<Rightarrow> dataframe \<times> error option" where
  "fill_missing d = fill_loop (column_names d) d"

text \<open>The radio button's three branches, on the object \<open>df_processed\<close> refers to.\<close>

fun handle_missing_values ::
  "strategy \<Rightarrow> store \<Rightarrow> nat \<Rightarrow> store \<times> element list \<times> error option" where
  "handle_missing_values NoStrategy h df_processed = (h, [], None)"
| "handle_missing_values DropRows h df_processed =
     (let h' = h[df_processed := dropna (h ! df_processed)]
      in (h',
          [Write (''Data shape after dropping missing values: ''
                  @ str_shape (shape (h' ! df_processed)))],
          None))"
| "handle_missing_values FillMissing h df_processed =
     (case fill_missing (h ! df_processed) of
        (d, Some e) \<Rightarrow> (h[df_processed := d], [], Some e)
      | (d, None) \<Rightarrow> (h[df_processed := d], [Write ''Missing values have been filled.''], None))"

text \<open>
  The column drop: \<^verbatim>\<open>drop\<close> returns a new table, which \<open>df_processed\<close> refers to
  from then on. The message that follows joins the picked labels with
  \<^verbatim>\<open>', '.join(columns_to_drop)\<close>, which raises when one of them is not a string; the
  table has been dropped from by then.
\<close>

definition drop_selected ::
  "label list \<Rightarrow> store \<Rightarrow> nat \<Rightarrow> store \<times> element list \<times> (error + nat)" where
  "drop_selected picked h df_processed =
     (let to_drop = multiselect (column_names (h ! df_processed)) picked
      in if to_drop \<noteq> [] then
           (case drop_columns to_drop (h ! df_processed) of
              Inl e \<Rightarrow> (h, [Subheader ''Drop Columns''], Inl e)
            | Inr d \<Rightarrow>
                (case alloc h d of
                   (h', dropped) \<Rightarrow>
                     (case join_labels '', '' to_drop of
                        Inl e \<Rightarrow> (h', [Subheader ''Drop Columns''], Inl e)
                      | Inr joined \<Rightarrow>
                          (h',
                           [Subheader ''Drop Columns'',
                            Write (''Dropped columns: '' @ joined),
                            Write (''Data shape after dropping columns: ''
                                   @ str_shape (shape (h' ! dropped)))],
                           Inr dropped))))
         else (h, [Subheader ''Drop Columns''], Inr df_processed))"

text \<open>The whole sidebar section, from \<^verbatim>\<open>df_processed = df.copy()\<close> on. It returns the
  store, what it showed, and the reference \<open>df_processed\<close> holds at its end, or the
  exception that ended it.\<close>

definition cleaner :: "widgets \<Rightarrow> store \<Rightarrow> nat \<Rightarrow> store \<times> element list \<times> (error + nat)" where
  "cleaner w h df =
     (case copy_df h df of
        (h1, df_processed) \<Rightarrow>
          (case handle_missing_values (missing_value_strategy w) h1 df_processed of
             (h2, es, Some e) \<Rightarrow>
               (h2,
                [Header ''2. Data Cleaning & Preprocessing'', Subheader ''Handle Missing Values'']
                @ es,
                Inl e)
           | (h2, es, None) \<Rightarrow>
               (case drop_selected (columns_to_drop w) h2 df_processed of
                  (h3, es', r) \<Rightarrow>
                    (h3,
                     [Header ''2. Data Cleaning & Preprocessing'',
                      Subheader ''Handle Missing Values'']
                     @ es @ es',
                     r))))"

subsection \<open>Previews and summary (lines 101 to 135)\<close>

fun astype_loop :: "label list \<Rightarrow> dataframe \<Rightarrow> dataframe \<times> error option" where
  "astype_loop [] d = (d, None)"
| "astype_loop (col # cols) d =
     (case getitem d col of
        None \<Rightarrow> (d, Some KeyError)
      | Some c \<Rightarrow>
          if is_object_dtype c then astype_loop cols (setitem d col (astype_str c))
          else astype_loop cols d)"

definition to_display_df :: "store \<Rightarrow> nat \<Rightarrow> store \<times> (error + nat)" where
  "to_display_df h df_to_convert =
     (case copy_df h df_to_convert of
        (h1, display_df) \<Rightarrow>
          (case astype_loop (column_names (h1 ! display_df)) (h1 ! display_df) of
             (d, Some e) \<Rightarrow> (h1[display_df := d], Inl e)
           | (d, None) \<Rightarrow> (h1[display_df := d], Inr display_df)))"

text \<open>\<^verbatim>\<open>st.dataframe(to_display_df(d.head()))\<close> under an expander.\<close>

definition preview :: "string \<Rightarrow> store \<Rightarrow> nat \<Rightarrow> store \<times> element list \<times> error option" where
  "preview label h a =
     (case alloc h (head (h ! a)) of
        (h1, first_rows) \<Rightarrow>
          (case to_display_df h1 first_rows of
             (h2, Inl e) \<Rightarrow> (h2, [Expander label], Some e)
           | (h2, Inr shown) \<Rightarrow> (h2, [Expander label, Dataframe (h2 ! shown)], None)))"

definition data_summary :: "env \<Rightarrow> dataframe \<Rightarrow> element list \<times> error option" where
  "data_summary env d =
     (case describe d of
        Inl e \<Rightarrow>
          ([Expander ''Show Data Summary'',
            WriteShape ''Shape of Processed DataFrame:'' (shape d),
            Text (info env d),
            Write ''Descriptive Statistics:''],
           Some e)
      | Inr stats \<Rightarrow>
          ([Expander ''Show Data Summary'',
            WriteShape ''Shape of Processed DataFrame:'' (shape d),
            Text (info env d),
            Write ''Descriptive Statistics:'',
            WriteDescription stats],
           None))"

definition inspector ::
  "env \<Rightarrow> store \<Rightarrow> nat \<Rightarrow> nat \<Rightarrow> store \<times> element list \<times> error option" where
  "inspector env h df df_processed =
     (case preview ''Show Raw Data Preview (First 5 Rows)'' h df of
        (h1, es1, Some e) \<Rightarrow> (h1, Header ''Data Exploration'' # es1, Some e)
      | (h1, es1, None) \<Rightarrow>
          (case preview ''Show Processed Data Preview (First 5 Rows)'' h1 df_processed of
             (h2, es2, Some e) \<Rightarrow> (h2, Header ''Data Exploration'' # es1 @ es2, Some e)
           | (h2, es2, None) \<Rightarrow>
               (case data_summary env (h2 ! df_processed) of
                  (es3, Some e) \<Rightarrow> (h2, Header ''Data Exploration'' # es1 @ es2 @ es3, Some e)
                | (es3, None) \<Rightarrow>
                    (h2,
                     Header ''Data Exploration'' # es1 @ es2 @ es3
                     @ [Expander ''Show Missing Value Counts'',
                        WriteCounts (isnull_sums (h2 ! df_processed))],
                     None))))"

subsection \<open>Plots (lines 137 to 207)\<close>

definition numeric_columns :: "dataframe \<Rightarrow> label list" where
  "numeric_columns d = map fst (filter (\<lambda>(n, c). is_number_dtype c) (columns d))"

definition categorical_columns :: "dataframe \<Rightarrow> label list" where
  "categorical_columns d = map fst (filter (\<lambda>(n, c). is_object_dtype c) (columns d))"

text \<open>One plot: the figure is shown when the plotting calls return, and an exception of
  theirs is not handled.\<close>

definition plot :: "env \<Rightarrow> chart \<Rightarrow> element list \<times> error option" where
  "plot env ch = (case draw env ch of Some e \<Rightarrow> ([], Some e) | None \<Rightarrow> ([Pyplot ch], None))"

text \<open>
  \<^verbatim>\<open>groupby(key)[value].mean()\<close>: one row per present key, keys ascending, each with the
  mean of the present values of its rows (NaN when it has none).
\<close>

definition groupby_mean :: "string option list \<Rightarrow> rat option list \<Rightarrow> (string \<times> rat option) list" where
  "groupby_mean ks vs =
     map (\<lambda>k. (k, nanmean (notna_values (map snd (filter (\<lambda>(k', v). k' = Some k) (zip ks vs))))))
       (sort (remdups (notna_values ks)))"

text \<open>
  \<^verbatim>\<open>sort_values(ascending=False)\<close>, as pandas' \<^verbatim>\<open>nargsort\<close> does it: the rows with a
  value are reversed, sorted ascending and reversed again, and the NaN rows follow. The
  sort is taken to be stable, as it is on the short series a bar chart shows; no
  statement below depends on the order among equal means.
\<close>

definition sort_values_descending :: "(string \<times> rat option) list \<Rightarrow> (string \<times> rat option) list" where
  "sort_values_descending s =
     (let non_nans = List.map_filter (\<lambda>(k, m). map_option (Pair k) m) s;
          nans = filter (\<lambda>(k, m). m = None) s
      in map (\<lambda>(k, v). (k, Some v)) (rev (sort_key snd (rev non_nans))) @ nans)"

text \<open>The select boxes of the bar chart offer \<^verbatim>\<open>object\<close> columns as keys and number
  columns as values; the last case does not arise from them.\<close>

definition agg_data :: "dataframe \<Rightarrow> label \<Rightarrow> label \<Rightarrow> error + (string \<times> rat option) list" where
  "agg_data d cat num =
     (case (getitem d cat, getitem d num) of
        (None, _) \<Rightarrow> Inl KeyError
      | (_, None) \<Rightarrow> Inl KeyError
      | (Some (Object ks), Some (Numeric x)) \<Rightarrow>
          Inr (sort_values_descending (groupby_mean ks (as_float x)))
      | _ \<Rightarrow> Inl TypeError)"

definition histogram :: "env \<Rightarrow> widgets \<Rightarrow> dataframe \<Rightarrow> element list \<times> error option" where
  "histogram env w d =
     (case selectbox (numeric_columns d) (column w) of
        None \<Rightarrow> ([], None)
      | Some col \<Rightarrow>
          if truthy col then
            (case getitem d col of
               None \<Rightarrow> ([], Some KeyError)
             | Some c \<Rightarrow>
                 plot env
                   (Histplot c (slider 5 100 20 (bins w)) (''Histogram of '' @ str_label col)))
          else ([], None))"

definition box_plot :: "env \<Rightarrow> widgets \<Rightarrow> dataframe \<Rightarrow> element list \<times> error option" where
  "box_plot env w d =
     (case selectbox (numeric_columns d) (column w) of
        None \<Rightarrow> ([], None)
      | Some col \<Rightarrow>
          if truthy col then
            (case getitem d col of
               None \<Rightarrow> ([], Some KeyError)
             | Some c \<Rightarrow> plot env (Boxplot c (''Box Plot of '' @ str_label col)))
          else ([], None))"

definition hue_data :: "widgets \<Rightarrow> dataframe \<Rightarrow> error + column option" where
  "hue_data w d =
     (case selectbox (None # map Some (categorical_columns d)) (hue w) of
        Some (Some h) \<Rightarrow>
          if truthy h then
            (case getitem d h of None \<Rightarrow> Inl KeyError | Some c \<Rightarrow> Inr (Some c))
          else Inr None
      | _ \<Rightarrow> Inr None)"

definition scatter_plot :: "env \<Rightarrow> widgets \<Rightarrow> dataframe \<Rightarrow> element list \<times> error option" where
  "scatter_plot env w d =
     (let x = selectbox (numeric_columns d) (x_axis w);
          y_axis_options = filter (\<lambda>col. Some col \<noteq> x) (numeric_columns d);
          y = selectbox y_axis_options (y_axis w)
      in case (x, y) of
           (Some xcol, Some ycol) \<Rightarrow>
             if truthy xcol \<and> truthy ycol then
               (case hue_data w d of
                  Inl e \<Rightarrow> ([], Some e)
                | Inr hue_col \<Rightarrow>
                    (case (getitem d xcol, getitem d ycol) of
                       (Some cx, Some cy) \<Rightarrow>
                         plot env
                           (Scatterplot cx cy hue_col
                              (''Scatter Plot of '' @ str_label xcol @ '' vs ''
                               @ str_label ycol))
                     | _ \<Rightarrow> ([], Some KeyError)))
             else ([], None)
         | _ \<Rightarrow> ([], None))"

definition bar_chart :: "env \<Rightarrow> widgets \<Rightarrow> dataframe \<Rightarrow> element list \<times> error option" where
  "bar_chart env w d =
     (case (selectbox (categorical_columns d) (cat_column w),
            selectbox (numeric_columns d) (num_column w)) of
        (Some cat, Some num) \<Rightarrow>
          if truthy cat \<and> truthy num then
            (case agg_data d cat num of
               Inl e \<Rightarrow> ([], Some e)
             | Inr a \<Rightarrow>
                 plot env
                   (Barplot a (''Average '' @ str_label num @ '' by '' @ str_label cat)))
          else ([], None)
      | _ \<Rightarrow> ([], None))"

definition correlation_heatmap :: "env \<Rightarrow> dataframe \<Rightarrow> element list \<times> error option" where
  "correlation_heatmap env d =
     (if numeric_columns d = [] then
        ([Warning ''No numerical columns available to create a heatmap.''], None)
      else plot env
             (Heatmap (filter (\<lambda>(n, c). is_number_dtype c) (columns d))
                ''Correlation Matrix of Numerical Columns''))"

fun plotting :: "env \<Rightarrow> widgets \<Rightarrow> dataframe \<Rightarrow> plot_kind \<Rightarrow> element list \<times> error option" where
  "plotting env w d Histogram =
     (case histogram env w d of (es, r) \<Rightarrow> (Subheader ''Histogram'' # es, r))"
| "plotting env w d BoxPlot =
     (case box_plot env w d of (es, r) \<Rightarrow> (Subheader ''Box Plot'' # es, r))"
| "plotting env w d ScatterPlot =
     (case scatter_plot env w d of (es, r) \<Rightarrow> (Subheader ''Scatter Plot'' # es, r))"
| "plotting env w d BarChart =
     (case bar_chart env w d of (es, r) \<Rightarrow> (Subheader ''Bar Chart'' # es, r))"
| "plotting env w d CorrelationHeatmap =
     (case correlation_heatmap env d of (es, r) \<Rightarrow> (Subheader ''Correlation Heatmap'' # es, r))"

definition visualizer :: "env \<Rightarrow> widgets \<Rightarrow> dataframe \<Rightarrow> element list \<times> error option" where
  "visualizer env w d =
     (case plotting env w d (plot_type w) of
        (es, r) \<Rightarrow> (Header ''Data Visualization'' # es, r))"

subsection \<open>The report (lines 209 to 237)\<close>

definition generate_summary :: "env \<Rightarrow> dataframe \<Rightarrow> error + string" where
  "generate_summary env dataframe =
     (case describe dataframe of
        Inl e \<Rightarrow> Inl e
      | Inr stats \<Rightarrow>
          Inr (''Data Analysis Summary Report\<newline>''
               @ replicate 30 (CHR ''='') @ ''\<newline>\<newline>''
               @ ''1. Data Shape\<newline>''
               @ ''Number of Rows: '' @ str_nat (fst (shape dataframe)) @ ''\<newline>''
               @ ''Number of Columns: '' @ str_nat (snd (shape dataframe)) @ ''\<newline>\<newline>''
               @ ''2. Data Info\<newline>''
               @ info env dataframe
               @ ''\<newline>\<newline>3. Descriptive Statistics\<newline>''
               @ description_to_string env stats
               @ ''\<newline>\<newline>4. Missing Values Count\<newline>''
               @ counts_to_string env (isnull_sums dataframe)))"

definition reporter :: "env \<Rightarrow> dataframe \<Rightarrow> element list \<times> error option" where
  "reporter env d =
     (case generate_summary env d of
        Inl e \<Rightarrow>
          ([Header ''Export Summary Report'',
            Write ''Download a text file with a summary of the processed data.''],
           Some e)
      | Inr summary_text \<Rightarrow>
          ([Header ''Export Summary Report'',
            Write ''Download a text file with a summary of the processed data.'',
            DownloadButton ''Download Summary Report'' summary_text ''data_summary.txt''
              ''text/plain''],
           None))"

subsection \<open>The run (\<^verbatim>\<open>main\<close>)\<close>

text \<open>
  What the uploader hands over: the file's name, and what \<^verbatim>\<open>pd.read_csv\<close> and
  \<^verbatim>\<open>pd.read_excel\<close> make of its bytes, a table (one per sheet) or an exception with
  its message.
\<close>

record uploaded_file =
  name :: string
  read_csv :: "string + dataframe"
  read_excel :: "string + (string \<times> dataframe) list"

datatype file_data = Table dataframe | Sheets "(string \<times> dataframe) list"

definition endswith :: "string \<Rightarrow> string \<Rightarrow> bool" where
  "endswith s ext =
     (length ext \<le> length s \<and> List.drop (length s - length ext) s = ext)"

text \<open>\<^verbatim>\<open>load_data\<close> is the one place with a handler: a failed parse is shown and
  becomes \<^verbatim>\<open>None\<close>. Another extension falls through both branches to \<^verbatim>\<open>None\<close>.\<close>

definition load_data :: "uploaded_file \<Rightarrow> element list \<times> file_data option" where
  "load_data file =
     (if endswith (name file) ''.csv'' then
        (case read_csv file of
           Inl msg \<Rightarrow> ([Error (''Error loading data: '' @ msg)], None)
         | Inr d \<Rightarrow> ([], Some (Table d)))
      else if endswith (name file) ''.xlsx'' then
        (case read_excel file of
           Inl msg \<Rightarrow> ([Error (''Error loading data: '' @ msg)], None)
         | Inr sheets \<Rightarrow> ([], Some (Sheets sheets)))
      else ([], None))"

text \<open>The store after loading, and the object \<open>df\<close> refers to: the table, or the
  picked sheet (\<^verbatim>\<open>file_data[None]\<close> is a \<^verbatim>\<open>KeyError\<close>).\<close>

fun select_sheet :: "widgets \<Rightarrow> file_data \<Rightarrow> store \<times> (error + nat)" where
  "select_sheet w (Table d) = ([d], Inr 0)"
| "select_sheet w (Sheets sheets) =
     (case selectbox [0..<length sheets] (sheet_name w) of
        None \<Rightarrow> (map snd sheets, Inl KeyError)
      | Some i \<Rightarrow> (map snd sheets, Inr i))"

definition page_top :: "element list" where
  "page_top =
     [Title ([CHR 0xF0, CHR 0x9F, CHR 0x93, CHR 0x8A] @ '' Interactive Data Analysis Dashboard''),
      Write ''Upload your CSV or Excel file to begin exploring your data.'',
      Header ''1. Upload Your Data'']"

definition explore :: "env \<Rightarrow> widgets \<Rightarrow> store \<Rightarrow> nat \<Rightarrow> element list \<times> run_end" where
  "explore env w h df =
     (case cleaner w h df of
        (h1, es1, Inl e) \<Rightarrow> (es1, Raised e)
      | (h1, es1, Inr df_processed) \<Rightarrow>
          (case inspector env h1 df df_processed of
             (h2, es2, Some e) \<Rightarrow> (es1 @ es2, Raised e)
           | (h2, es2, None) \<Rightarrow>
               (case visualizer env w (h2 ! df_processed) of
                  (es3, Some e) \<Rightarrow> (es1 @ es2 @ es3, Raised e)
                | (es3, None) \<Rightarrow>
                    (case reporter env (h2 ! df_processed) of
                       (es4, Some e) \<Rightarrow> (es1 @ es2 @ es3 @ es4, Raised e)
                     | (es4, None) \<Rightarrow> (es1 @ es2 @ es3 @ es4, Completed)))))"

definition main :: "env \<Rightarrow> widgets \<Rightarrow> uploaded_file option \<Rightarrow> element list \<times> run_end" where
  "main env w uploaded =
     (case uploaded of
        None \<Rightarrow> (page_top @ [Info ''Awaiting file upload.''], Stopped)
      | Some file \<Rightarrow>
          (case load_data file of
             (es, None) \<Rightarrow> (page_top @ [Success ''File uploaded successfully!''] @ es, Stopped)
           | (es, Some loaded) \<Rightarrow>
               (case select_sheet w loaded of
                  (h, Inl e) \<Rightarrow>
                    (page_top @ [Success ''File uploaded successfully!''] @ es, Raised e)
                | (h, Inr df) \<Rightarrow>
                    (case explore env w h df of
                       (es', r) \<Rightarrow>
                         (page_top @ [Success ''File uploaded successfully!''] @ es @ es', r)))))"

section \<open>What the specification says of the program\<close>

subsection \<open>Filling missing values\<close>

text \<open>
  The specification's fill value for a column that is not numeric: the single most frequent
  value, and among equally frequent ones the first in the order of the values.
\<close>

definition most_frequent_first :: "('a :: linorder) list \<Rightarrow> 'a \<Rightarrow> bool" where
  "most_frequent_first vs v =
     (v \<in> set vs \<and> (\<forall>u \<in> set vs. count_list vs u \<le> count_list vs v)
      \<and> (\<forall>u \<in> set vs. count_list vs u = count_list vs v \<longrightarrow> v \<le> u))"

text \<open>What one turn of the fill loop makes of the column it visits.\<close>

definition fill_column :: "column \<Rightarrow> error + column" where
  "fill_column c =
     (if isnull_any c then
        (case c of
           Numeric x \<Rightarrow> Inr (Numeric (fillna_numeric (mean x) x))
         | Datetime64 xs \<Rightarrow>
             (case getitem0 (mode xs) of
                Inl e \<Rightarrow> Inl e
              | Inr v \<Rightarrow> Inr (Datetime64 (fillna (Some v) xs)))
         | Object xs \<Rightarrow>
             (case getitem0 (mode xs) of
                Inl e \<Rightarrow> Inl e
              | Inr v \<Rightarrow> Inr (Object (fillna (Some v) xs))))
      else Inr c)"

text \<open>
  A column that is not numeric and has a missing entry can be filled when it has a value at
  all. Without one there is no most frequent value, and \<^verbatim>\<open>mode()[0]\<close> raises.
\<close>

definition has_fill_value :: "column \<Rightarrow> bool" where
  "has_fill_value c =
     (case c of
        Numeric x \<Rightarrow> True
      | Datetime64 xs \<Rightarrow> None \<in> set xs \<longrightarrow> notna_values xs \<noteq> []
      | Object xs \<Rightarrow> None \<in> set xs \<longrightarrow> notna_values xs \<noteq> [])"

text \<open>A column with a value: there is a mean, or a most frequent value, to fill with.\<close>

definition has_value :: "column \<Rightarrow> bool" where
  "has_value c =
     (case c of
        Numeric x \<Rightarrow> notna_values (as_float x) \<noteq> []
      | Datetime64 xs \<Rightarrow> notna_values xs \<noteq> []
      | Object xs \<Rightarrow> notna_values xs \<noteq> [])"

text \<open>
  The specification's \<^verbatim>\<open>fill-missing\<close>, column by column: in a numeric column with a
  missing entry every missing entry is replaced by the mean of the present values, so
  there is such a mean (integer and boolean columns have no missing entry); in any other
  column with a missing entry every missing entry is replaced by the most frequent value.
  A column without a missing entry stays as it is.
\<close>

definition filled_as_specified :: "column \<Rightarrow> column \<Rightarrow> bool" where
  "filled_as_specified c c' =
     (case c of
        Numeric (Float64 xs) \<Rightarrow>
          (if None \<in> set xs then
             \<exists>m. nanmean (notna_values xs) = Some m
                \<and> c' = Numeric (Float64 (fillna (Some m) xs))
           else c' = c)
      | Numeric x \<Rightarrow> c' = c
      | Datetime64 xs \<Rightarrow>
          (if None \<in> set xs then
             \<exists>v. most_frequent_first (notna_values xs) v
                \<and> c' = Datetime64 (fillna (Some v) xs)
           else c' = c)
      | Object xs \<Rightarrow>
          (if None \<in> set xs then
             \<exists>v. most_frequent_first (notna_values xs) v
                \<and> c' = Object (fillna (Some v) xs)
           else c' = c))"

subsection \<open>The working copy\<close>

text \<open>
  The outcome of the cleaner as a function of the original table, the strategy and the
  drop set: the strategy first, then the column drop. The multiselect offers the columns
  of the table the strategy left, and the message of the drop needs string labels.
\<close>

definition dropped :: "label list \<Rightarrow> dataframe \<Rightarrow> error + dataframe" where
  "dropped picked d =
     (let to_drop = multiselect (column_names d) picked
      in if to_drop \<noteq> [] then
           (case drop_columns to_drop d of
              Inl e \<Rightarrow> Inl e
            | Inr d' \<Rightarrow>
                (case join_labels '', '' to_drop of Inl e \<Rightarrow> Inl e | Inr joined \<Rightarrow> Inr d'))
         else Inr d)"

definition spec_working_copy :: "strategy \<Rightarrow> label list \<Rightarrow> dataframe \<Rightarrow> error + dataframe" where
  "spec_working_copy s picked d =
     (case s of
        NoStrategy \<Rightarrow> dropped picked d
      | DropRows \<Rightarrow> dropped picked (dropna d)
      | FillMissing \<Rightarrow>
          (case fill_missing d of
             (d', Some e) \<Rightarrow> Inl e
           | (d', None) \<Rightarrow> dropped picked d'))"

subsection \<open>Previews\<close>

text \<open>A column of texts: an \<^verbatim>\<open>object\<close> column without a missing entry.\<close>

definition text_column :: "column \<Rightarrow> bool" where
  "text_column c = (case c of Object xs \<Rightarrow> None \<notin> set xs | _ \<Rightarrow> False)"

text \<open>The preview as the specification words it: a column that is not numeric is shown
  as text, a numeric one as it is.\<close>

definition previewed_as_claimed :: "dataframe \<Rightarrow> dataframe \<Rightarrow> bool" where
  "previewed_as_claimed d shown =
     list_all2 (\<lambda>(n, c) (n', c'). n' = n \<and>
                  (if is_numeric_dtype c then c' = take_rows 5 c else text_column c'))
       (columns d) (columns shown)"

text \<open>The preview as \<^verbatim>\<open>to_display_df\<close> words it: \<^verbatim>\<open>object\<close> columns are shown as
  text, every other column as it is.\<close>

definition previewed_as_coded :: "dataframe \<Rightarrow> dataframe \<Rightarrow> bool" where
  "previewed_as_coded d shown =
     list_all2 (\<lambda>(n, c) (n', c'). n' = n \<and>
                  (if is_object_dtype c then c' = astype_str (take_rows 5 c) \<and> text_column c'
                   else c' = take_rows 5 c))
       (columns d) (columns shown)"

subsection \<open>The bar chart\<close>


subsection \<open>How a run should end after a failure\<close>

text \<open>The specification's outcome when a step fails: the run goes on to its end and
  shows an error message.\<close>

definition ends_with_message :: "element list \<times> run_end \<Rightarrow> bool" where
  "ends_with_message run = (snd run = Completed \<and> (\<exists>msg. Error msg \<in> set (fst run)))"

text \<open>What a page shows: an error message of the program's, the download button.\<close>

definition shows_error :: "element list \<Rightarrow> bool" where
  "shows_error es = (\<exists>msg. Error msg \<in> set es)"

definition shows_download :: "element list \<Rightarrow> bool" where
  "shows_download es =
     (\<exists>lbl data file_name mime. DownloadButton lbl data file_name mime \<in> set es)"

text \<open>An element that is no figure, no error message and no download button.\<close>

fun plain :: "element \<Rightarrow> bool" where
  "plain (Pyplot ch) = False"
| "plain (Error msg) = False"
| "plain (DownloadButton lbl data file_name mime) = False"
| "plain e = True"

subsection \<open>The tables and inputs of the scenarios\<close>

text \<open>The fill scenario: the table, the table after \<^verbatim>\<open>fill-missing\<close>, and the
  table after dropping \<open>city\<close>.\<close>

definition scenario_table :: dataframe where
  "scenario_table =
     \<lparr>index = [0, 1, 2],
      columns = [(StrLabel ''age'', Numeric (Float64 [Some 25, None, Some 31])),
                 (StrLabel ''city'', Object [Some ''NY'', Some ''NY'', Some ''LA''])]\<rparr>"

definition scenario_filled :: dataframe where
  "scenario_filled =
     \<lparr>index = [0, 1, 2],
      columns = [(StrLabel ''age'', Numeric (Float64 [Some 25, Some 28, Some 31])),
                 (StrLabel ''city'', Object [Some ''NY'', Some ''NY'', Some ''LA''])]\<rparr>"

definition scenario_age_only :: dataframe where
  "scenario_age_only =
     \<lparr>index = [0, 1, 2],
      columns = [(StrLabel ''age'', Numeric (Float64 [Some 25, Some 28, Some 31]))]\<rparr>"

text \<open>Tables as \<^verbatim>\<open>read_csv\<close> makes them of a file whose second column is empty in
  every row: the column is \<^verbatim>\<open>float64\<close> and all NaN.\<close>

definition empty_column_table :: dataframe where
  "empty_column_table =
     \<lparr>index = [0, 1],
      columns = [(StrLabel ''a'', Numeric (Int64 [1, 2])),
                 (StrLabel ''b'', Numeric (Float64 [None, None]))]\<rparr>"

definition blank_score_table :: dataframe where
  "blank_score_table =
     \<lparr>index = [0, 1],
      columns = [(StrLabel ''id'', Numeric (Int64 [1, 2])),
                 (StrLabel ''score'', Numeric (Float64 [None, None]))]\<rparr>"

definition blank_age_table :: dataframe where
  "blank_age_table =
     \<lparr>index = [0, 1, 2],
      columns = [(StrLabel ''age'', Numeric (Float64 [None, None, None])),
                 (StrLabel ''city'', Object [Some ''NY'', Some ''NY'', Some ''LA''])]\<rparr>"

text \<open>A sheet whose header row holds a text and two years, as \<^verbatim>\<open>read_excel\<close> loads
  it: the years are integer labels.\<close>

definition year_sheet :: dataframe where
  "year_sheet =
     \<lparr>index = [0, 1],
      columns = [(StrLabel ''region'', Object [Some ''north'', Some ''south'']),
                 (IntLabel 2020, Numeric (Int64 [10, 20])),
                 (IntLabel 2021, Numeric (Int64 [30, 40]))]\<rparr>"

text \<open>A sheet with a date column, as \<^verbatim>\<open>read_excel\<close> loads it, and its preview.\<close>

definition timeline_table :: dataframe where
  "timeline_table =
     \<lparr>index = [0, 1],
      columns = [(StrLabel ''when'', Datetime64 [Some 1700000000, None]),
                 (StrLabel ''what'', Object [Some ''start'', None])]\<rparr>"

definition timeline_shown :: dataframe where
  "timeline_shown =
     \<lparr>index = [0, 1],
      columns = [(StrLabel ''when'', Datetime64 [Some 1700000000, None]),
                 (StrLabel ''what'', Object [Some ''start'', Some ''nan''])]\<rparr>"


definition city_table :: dataframe where
  "city_table = \<lparr>index = [0, 1], columns = [(StrLabel ''city'', Object [Some ''NY'', Some ''LA''])]\<rparr>"

text \<open>Uploads: a CSV file that parses to a given table, a workbook that parses to given
  sheets, and a file that does not parse.\<close>

definition csv_upload :: "dataframe \<Rightarrow> uploaded_file" where
  "csv_upload d = \<lparr>name = ''data.csv'', read_csv = Inr d, read_excel = Inl []\<rparr>"

definition xlsx_upload :: "(string \<times> dataframe) list \<Rightarrow> uploaded_file" where
  "xlsx_upload sheets = \<lparr>name = ''data.xlsx'', read_csv = Inl [], read_excel = Inr sheets\<rparr>"

definition unreadable_upload :: uploaded_file where
  "unreadable_upload =
     \<lparr>name = ''empty.csv'', read_csv = Inl ''No columns to parse from file'',
      read_excel = Inl []\<rparr>"

text \<open>Widget states: the fill scenario with the heat map picked; a drop of every column
  of the fill scenario; a drop of the column \<open>2020\<close> and a drop of every column of the
  sheet; a box plot of the second number column.\<close>

definition scenario_widgets :: widgets where
  "scenario_widgets =
     \<lparr>sheet_name = 0, missing_value_strategy = FillMissing, columns_to_drop = [StrLabel ''city''],
      plot_type = CorrelationHeatmap, column = 0, bins = 20, x_axis = 0, y_axis = 0, hue = 0,
      cat_column = 0, num_column = 0\<rparr>"

definition drop_all_widgets :: widgets where
  "drop_all_widgets =
     \<lparr>sheet_name = 0, missing_value_strategy = NoStrategy, columns_to_drop = [StrLabel ''age'', StrLabel ''city''],
      plot_type = Histogram, column = 0, bins = 20, x_axis = 0, y_axis = 0, hue = 0,
      cat_column = 0, num_column = 0\<rparr>"

definition drop_year_widgets :: widgets where
  "drop_year_widgets =
     \<lparr>sheet_name = 0, missing_value_strategy = NoStrategy, columns_to_drop = [IntLabel 2020],
      plot_type = Histogram, column = 0, bins = 20, x_axis = 0, y_axis = 0, hue = 0,
      cat_column = 0, num_column = 0\<rparr>"

definition drop_all_years_widgets :: widgets where
  "drop_all_years_widgets =
     \<lparr>sheet_name = 0, missing_value_strategy = NoStrategy,
      columns_to_drop = [StrLabel ''region'', IntLabel 2020, IntLabel 2021],
      plot_type = Histogram, column = 0, bins = 20, x_axis = 0, y_axis = 0, hue = 0,
      cat_column = 0, num_column = 0\<rparr>"

definition box_plot_widgets :: widgets where
  "box_plot_widgets =
     \<lparr>sheet_name = 0, missing_value_strategy = NoStrategy, columns_to_drop = [],
      plot_type = BoxPlot, column = 1, bins = 20, x_axis = 0, y_axis = 0, hue = 0,
      cat_column = 0, num_column = 0\<rparr>"

text \<open>Library calls that render nothing: with plotting calls that all raise, that all
  draw, and that raise on a box plot of a column without any value and draw everything
  else.\<close>

definition raising_env :: env where
  "raising_env =
     \<lparr>info = (\<lambda>d. ''''), description_to_string = (\<lambda>s. ''''), counts_to_string = (\<lambda>c. ''''),
      draw = (\<lambda>ch. Some (LibraryError ''draw''))\<rparr>"

definition drawing_env :: env where
  "drawing_env =
     \<lparr>info = (\<lambda>d. []), description_to_string = (\<lambda>s. []), counts_to_string = (\<lambda>c. []),
      draw = (\<lambda>ch. None)\<rparr>"

definition boxplot_env :: env where
  "boxplot_env =
     \<lparr>info = (\<lambda>d. []), description_to_string = (\<lambda>s. []), counts_to_string = (\<lambda>c. []),
      draw = (\<lambda>ch. case ch of
                     Boxplot c title \<Rightarrow>
                       if has_value c then None else Some (LibraryError ''boxplot'')
                   | _ \<Rightarrow> None)\<rparr>"

section \<open>Properties\<close>

subsection \<open>The mode of a column\<close>

lemma fold_max_ge: "a \<le> fold max ys (a :: nat)"
  by (induction ys arbitrary: a) (auto intro: order_trans [OF max.cobounded2])

lemma fold_max_upper: "y \<in> set ys \<Longrightarrow> y \<le> fold max ys (a :: nat)"
proof (induction ys arbitrary: a)
  case Nil
  then show ?case by simp
next
  case (Cons z zs)
  show ?case
  proof (cases "y = z")
    case True
    have "z \<le> max z a" by simp
    also have "\<dots> \<le> fold max zs (max z a)" by (rule fold_max_ge)
    finally show ?thesis using True by simp
  next
    case False
    with Cons show ?thesis by simp
  qed
qed

lemma fold_max_attained: "fold max ys (a :: nat) = a \<or> fold max ys a \<in> set ys"
proof (induction ys arbitrary: a)
  case Nil
  then show ?case by simp
next
  case (Cons z zs)
  from Cons [of "max z a"] show ?case
    by (auto simp: max_def split: if_splits)
qed

lemma max_count_upper: "u \<in> set vs \<Longrightarrow> count_list vs u \<le> max_count vs"
  unfolding max_count_def by (rule fold_max_upper) simp

lemma max_count_attained:
  assumes "vs \<noteq> []"
  shows "\<exists>v \<in> set vs. count_list vs v = max_count vs"
proof -
  obtain u where u: "u \<in> set vs" using assms by (cases vs) auto
  then have pos: "0 < count_list vs u" using count_list_0_iff [of vs u] by auto
  have "0 < max_count vs" using pos max_count_upper [OF u] by linarith
  moreover have "max_count vs = 0 \<or> max_count vs \<in> set (map (count_list vs) vs)"
    unfolding max_count_def by (rule fold_max_attained)
  ultimately show ?thesis by auto
qed

lemma mode_first:
  assumes "notna_values xs \<noteq> []"
  shows "\<exists>v. getitem0 (mode xs) = Inr v \<and> most_frequent_first (notna_values xs) v"
proof -
  let ?vs = "notna_values xs"
  let ?S = "filter (\<lambda>v. count_list ?vs v = max_count ?vs) (remdups ?vs)"
  from max_count_attained [OF assms] have "set ?S \<noteq> {}" by auto
  then have "sort ?S \<noteq> []" by (metis set_empty set_sort)
  then obtain v rest where vr: "sort ?S = v # rest" by (cases "sort ?S") auto
  have "sorted (v # rest)" using sorted_sort [of ?S] vr by simp
  then have least: "\<forall>u \<in> set (v # rest). v \<le> u" by auto
  have mem: "set (v # rest) = set ?S" using vr by (metis set_sort)
  then have v: "v \<in> set ?vs" "count_list ?vs v = max_count ?vs" by auto
  have "getitem0 (mode xs) = Inr v" using vr by (simp add: mode_def)
  moreover have "most_frequent_first ?vs v"
    unfolding most_frequent_first_def
  proof (intro conjI ballI impI)
    show "v \<in> set ?vs" by (rule v)
  next
    fix u assume "u \<in> set ?vs"
    then show "count_list ?vs u \<le> count_list ?vs v" using v max_count_upper by metis
  next
    fix u assume "u \<in> set ?vs" "count_list ?vs u = count_list ?vs v"
    then have "u \<in> set ?S" using v by simp
    then show "v \<le> u" using least mem by blast
  qed
  ultimately show ?thesis by blast
qed

lemma mode_empty: "notna_values xs = [] \<Longrightarrow> getitem0 (mode xs) = Inl KeyError"
  by (simp add: mode_def)

lemma notna_values_empty_iff: "notna_values xs = [] \<longleftrightarrow> (\<forall>x \<in> set xs. x = None)"
  by (induction xs rule: notna_values.induct) auto





lemma fillna_all_present: "None \<notin> set xs \<Longrightarrow> fillna v xs = xs"
  by (induction xs) (auto simp: fillna_def split: option.splits)

lemma fillna_None: "fillna None xs = xs"
  by (induction xs) (auto simp: fillna_def split: option.splits)

subsection \<open>The fill loop\<close>

lemma map_of_app_fresh: "n \<notin> fst ` set pre \<Longrightarrow> map_of (pre @ (n, c) # cs) n = Some c"
  by (induction pre) auto

lemma update_app_fresh:
  "n \<notin> fst ` set pre \<Longrightarrow> AList.update n c' (pre @ (n, c) # cs) = pre @ (n, c') # cs"
  by (induction pre) auto

lemma getitem_setitem:
  "getitem (setitem d col c) n = (if n = col then Some c else getitem d n)"
  by (simp add: getitem_def setitem_def update_conv)

lemma fill_loop_step:
  assumes "getitem d col = Some c"
  shows "fill_loop (col # cols) d =
           (case fill_column c of
              Inl e \<Rightarrow> (d, Some e)
            | Inr c' \<Rightarrow> if isnull_any c then fill_loop cols (setitem d col c') else fill_loop cols d)"
  using assms by (simp add: fill_column_def split: column.splits sum.splits)

lemma fill_column_no_null: "\<not> isnull_any c \<Longrightarrow> fill_column c = Inr c"
  by (simp add: fill_column_def)

lemma setitem_same:
  assumes "columns d = pre @ (n, c) # cs" "n \<notin> fst ` set pre"
  shows "setitem d n c = d"
  using assms by (simp add: setitem_def update_app_fresh)

lemma fill_loop_columns:
  assumes "list_all2 (\<lambda>(n, c) (n', c'). n' = n \<and> fill_column c = Inr c') cs cs'"
    and "columns d = pre @ cs"
    and "distinct (map fst (pre @ cs))"
  shows "fill_loop (map fst cs) d = (d\<lparr>columns := pre @ cs'\<rparr>, None)"
  using assms
proof (induction cs cs' arbitrary: pre d rule: list_all2_induct)
  case Nil
  then show ?case by simp
next
  case (Cons p cs p' cs')
  obtain n c where p: "p = (n, c)" by (cases p)
  obtain n' c' where p': "p' = (n', c')" by (cases p')
  from Cons.hyps p p' have n': "n' = n" and fc: "fill_column c = Inr c'" by auto
  from Cons.prems p have fresh: "n \<notin> fst ` set pre" by auto
  have get: "getitem d n = Some c"
    unfolding getitem_def Cons.prems(1) p by (rule map_of_app_fresh [OF fresh])
  let ?d' = "setitem d n c'"
  have cols': "columns ?d' = (pre @ [(n, c')]) @ cs"
    using Cons.prems(1) fresh by (simp add: setitem_def p update_app_fresh)
  have dist': "distinct (map fst ((pre @ [(n, c')]) @ cs))"
    using Cons.prems(2) p by simp
  have same: "\<not> isnull_any c \<Longrightarrow> ?d' = d"
    using fc fill_column_no_null [of c] setitem_same [OF _ fresh, of d c cs] Cons.prems(1) p
    by simp
  have "fill_loop (map fst (p # cs)) d = fill_loop (map fst cs) ?d'"
    using fill_loop_step [OF get, of "map fst cs"] fc same by (simp add: p)
  also have "\<dots> = (?d'\<lparr>columns := (pre @ [(n, c')]) @ cs'\<rparr>, None)"
    by (rule Cons.IH [OF cols' dist'])
  also have "?d'\<lparr>columns := (pre @ [(n, c')]) @ cs'\<rparr> = d\<lparr>columns := pre @ p' # cs'\<rparr>"
    by (simp add: setitem_def p' n')
  finally show ?case .
qed

lemma fill_column_succeeds:
  assumes "has_fill_value c"
  shows "\<exists>c'. fill_column c = Inr c'"
proof (cases c)
  case (Numeric x)
  then show ?thesis by (simp add: fill_column_def)
next
  case (Datetime64 xs)
  show ?thesis
  proof (cases "None \<in> set xs")
    case True
    with assms Datetime64 have "notna_values xs \<noteq> []" by (simp add: has_fill_value_def)
    from mode_first [OF this] obtain v where "getitem0 (mode xs) = Inr v" by blast
    with Datetime64 show ?thesis by (simp add: fill_column_def)
  next
    case False
    with Datetime64 show ?thesis by (simp add: fill_column_def isnull_any_def)
  qed
next
  case (Object xs)
  show ?thesis
  proof (cases "None \<in> set xs")
    case True
    with assms Object have "notna_values xs \<noteq> []" by (simp add: has_fill_value_def)
    from mode_first [OF this] obtain v where "getitem0 (mode xs) = Inr v" by blast
    with Object show ?thesis by (simp add: fill_column_def)
  next
    case False
    with Object show ?thesis by (simp add: fill_column_def isnull_any_def)
  qed
qed

lemma fill_column_specified:
  assumes "isnull_any c \<longrightarrow> has_value c"
  shows "\<exists>c'. fill_column c = Inr c' \<and> filled_as_specified c c'"
proof (cases c)
  case (Numeric x)
  show ?thesis
  proof (cases x)
    case (Int64 xs)
    with Numeric show ?thesis
      by (simp add: fill_column_def filled_as_specified_def)
  next
    case (Bool xs)
    with Numeric show ?thesis
      by (simp add: fill_column_def filled_as_specified_def)
  next
    case (Float64 xs)
    show ?thesis
    proof (cases "None \<in> set xs")
      case True
      with assms Numeric Float64 have "notna_values xs \<noteq> []"
        by (simp add: has_value_def isnull_any_def)
      then obtain m where "nanmean (notna_values xs) = Some m" by (simp add: nanmean_def)
      with True Numeric Float64 show ?thesis
        by (simp add: fill_column_def filled_as_specified_def isnull_any_def mean_def)
    next
      case False
      with Numeric Float64 show ?thesis
        by (simp add: fill_column_def filled_as_specified_def isnull_any_def)
    qed
  qed
next
  case (Datetime64 xs)
  show ?thesis
  proof (cases "None \<in> set xs")
    case True
    with assms Datetime64 have "notna_values xs \<noteq> []"
      by (simp add: has_value_def isnull_any_def)
    from mode_first [OF this] obtain v
      where "getitem0 (mode xs) = Inr v" "most_frequent_first (notna_values xs) v" by blast
    with True Datetime64 show ?thesis
      by (auto simp: fill_column_def filled_as_specified_def isnull_any_def)
  next
    case False
    with Datetime64 show ?thesis
      by (auto simp: fill_column_def filled_as_specified_def isnull_any_def)
  qed
next
  case (Object xs)
  show ?thesis
  proof (cases "None \<in> set xs")
    case True
    with assms Object have "notna_values xs \<noteq> []"
      by (simp add: has_value_def isnull_any_def)
    from mode_first [OF this] obtain v
      where "getitem0 (mode xs) = Inr v" "most_frequent_first (notna_values xs) v" by blast
    with True Object show ?thesis
      by (auto simp: fill_column_def filled_as_specified_def isnull_any_def)
  next
    case False
    with Object show ?thesis
      by (auto simp: fill_column_def filled_as_specified_def isnull_any_def)
  qed
qed

lemma fill_columns_exist:
  assumes "list_all (\<lambda>(n, c). \<exists>c'. fill_column c = Inr c' \<and> P c c') cs"
  shows "\<exists>cs'. list_all2 (\<lambda>(n, c) (n', c'). n' = n \<and> fill_column c = Inr c') cs cs'
           \<and> map fst cs' = map fst cs
           \<and> list_all2 P (map snd cs) (map snd cs')"
  using assms
proof (induction cs)
  case Nil
  then show ?case by simp
next
  case (Cons p cs)
  obtain n c where p: "p = (n, c)" by (cases p)
  from Cons.prems p obtain c' where c': "fill_column c = Inr c'" "P c c'" by auto
  from Cons obtain cs' where cs':
    "list_all2 (\<lambda>(n, c) (n', c'). n' = n \<and> fill_column c = Inr c') cs cs'"
    "map fst cs' = map fst cs"
    "list_all2 P (map snd cs) (map snd cs')" by auto
  show ?case
    by (rule exI [of _ "(n, c') # cs'"]) (simp add: p c' cs')
qed

lemma fill_missing_completes:
  assumes "distinct (column_names d)" and "list_all (\<lambda>(n, c). has_fill_value c) (columns d)"
  shows "snd (fill_missing d) = None"
proof -
  have "list_all (\<lambda>(n, c). \<exists>c'. fill_column c = Inr c' \<and> True) (columns d)"
    using assms(2) fill_column_succeeds by (auto simp: list_all_iff)
  from fill_columns_exist [OF this] obtain cs' where
    "list_all2 (\<lambda>(n, c) (n', c'). n' = n \<and> fill_column c = Inr c') (columns d) cs'" by blast
  then have "fill_loop (map fst (columns d)) d = (d\<lparr>columns := [] @ cs'\<rparr>, None)"
    by (rule fill_loop_columns) (use assms(1) in \<open>simp_all add: column_names_def\<close>)
  then show ?thesis by (simp add: fill_missing_def column_names_def)
qed

lemma fill_missing_specified:
  assumes "distinct (column_names d)"
    and "list_all (\<lambda>(n, c). isnull_any c \<longrightarrow> has_value c) (columns d)"
  shows "\<exists>cs'. fill_missing d = (d\<lparr>columns := cs'\<rparr>, None)
           \<and> map fst cs' = column_names d
           \<and> list_all2 filled_as_specified (map snd (columns d)) (map snd cs')"
proof -
  have "list_all (\<lambda>(n, c). \<exists>c'. fill_column c = Inr c' \<and> filled_as_specified c c') (columns d)"
    using assms(2) fill_column_specified by (auto simp: list_all_iff)
  from fill_columns_exist [OF this] obtain cs' where cs':
    "list_all2 (\<lambda>(n, c) (n', c'). n' = n \<and> fill_column c = Inr c') (columns d) cs'"
    "map fst cs' = map fst (columns d)"
    "list_all2 filled_as_specified (map snd (columns d)) (map snd cs')" by blast
  have "fill_loop (map fst (columns d)) d = (d\<lparr>columns := [] @ cs'\<rparr>, None)"
    by (rule fill_loop_columns [OF cs'(1)]) (use assms(1) in \<open>simp_all add: column_names_def\<close>)
  then show ?thesis using cs' by (auto simp: fill_missing_def column_names_def)
qed

lemma mean_all_missing: "notna_values xs = [] \<Longrightarrow> mean (Float64 xs) = None"
  by (simp add: mean_def nanmean_def)

lemma fill_loop_keeps_all_missing:
  assumes "getitem d n = Some (Numeric (Float64 xs))" and "notna_values xs = []"
  shows "getitem (fst (fill_loop cols d)) n = Some (Numeric (Float64 xs))"
  using assms(1)
proof (induction cols arbitrary: d)
  case Nil
  then show ?case by simp
next
  case (Cons col cols)
  show ?case
  proof (cases "getitem d col")
    case None
    then show ?thesis using Cons.prems by simp
  next
    case (Some c)
    show ?thesis
    proof (cases "fill_column c")
      case (Inl e)
      then show ?thesis using Cons.prems unfolding fill_loop_step [OF Some] by simp
    next
      case (Inr c')
      show ?thesis
      proof (cases "isnull_any c")
        case False
        then show ?thesis using Cons Inr unfolding fill_loop_step [OF Some] by simp
      next
        case True
        have "getitem (setitem d col c') n = Some (Numeric (Float64 xs))"
        proof (cases "n = col")
          case False
          then show ?thesis using Cons.prems by (simp add: getitem_setitem)
        next
          case same: True
          with Cons.prems Some have "c = Numeric (Float64 xs)" by simp
          with Inr True have "c' = Numeric (Float64 xs)"
            by (simp add: fill_column_def mean_all_missing [OF assms(2)] fillna_None)
          then show ?thesis using same by (simp add: getitem_setitem)
        qed
        from Cons.IH [OF this] show ?thesis
          using Inr True unfolding fill_loop_step [OF Some] by simp
      qed
    qed
  qed
qed

subsection \<open>The fill scenario\<close>

lemma scenario_fill: "fill_missing scenario_table = (scenario_filled, None)"
  by (simp add: fill_missing_def scenario_table_def scenario_filled_def column_names_def
      getitem_def setitem_def isnull_any_def mean_def nanmean_def fillna_def)

lemma scenario_drop: "drop_columns [StrLabel ''city''] scenario_filled = Inr scenario_age_only"
  by (simp add: drop_columns_def scenario_filled_def scenario_age_only_def column_names_def)

lemma scenario_cleaner:
  assumes "missing_value_strategy w = FillMissing" and "columns_to_drop w = [StrLabel ''city'']"
  shows "cleaner w [scenario_table] 0 =
           ([scenario_table, scenario_filled, scenario_age_only],
            [Header ''2. Data Cleaning & Preprocessing'', Subheader ''Handle Missing Values'',
             Write ''Missing values have been filled.'', Subheader ''Drop Columns'',
             Write ''Dropped columns: city'',
             Write ''Data shape after dropping columns: (3, 1)''],
            Inr 2)"
proof -
  have names: "multiselect (column_names scenario_filled) [StrLabel ''city''] = [StrLabel ''city'']"
    by (simp add: multiselect_def column_names_def scenario_filled_def)
  have sh: "str_shape (shape scenario_age_only) = ''(3, 1)''"
    by (simp add: str_shape_def shape_def scenario_age_only_def)
  show ?thesis
    by (simp add: cleaner_def copy_df_def alloc_def assms scenario_fill drop_selected_def join_labels_def
        names scenario_drop sh)
qed

text \<open>In every table with distinct labels whose columns with a missing entry have a value,
  \<^verbatim>\<open>fill-missing\<close> is what the specification says, column by column; so it is in the
  scenario.\<close>

lemma scenario_specified:
  "\<exists>cs'. fill_missing scenario_table = (scenario_table\<lparr>columns := cs'\<rparr>, None)
         \<and> map fst cs' = [StrLabel ''age'', StrLabel ''city'']
         \<and> list_all2 filled_as_specified (map snd (columns scenario_table)) (map snd cs')"
proof -
  have "distinct (column_names scenario_table)"
    by (simp add: scenario_table_def column_names_def)
  moreover have "list_all (\<lambda>(n, c). isnull_any c \<longrightarrow> has_value c) (columns scenario_table)"
    by (simp add: scenario_table_def has_value_def)
  moreover have "column_names scenario_table = [StrLabel ''age'', StrLabel ''city'']"
    by (simp add: scenario_table_def column_names_def)
  ultimately show ?thesis using fill_missing_specified [of scenario_table] by simp
qed

text \<open>
  Claim C1 has every missing entry of a numeric column replaced by the mean of the
  column's present values. In the table below the column \<open>age\<close> has no value: the
  fill loop runs without an exception, the program reports that the missing values have
  been filled, and no entry of \<open>age\<close> has been replaced.
\<close>

theorem fill_missing_skips_a_column_without_values:
  "getitem blank_age_table (StrLabel ''age'') = Some (Numeric (Float64 [None, None, None]))
   \<and> handle_missing_values FillMissing [blank_age_table] 0 =
       ([blank_age_table], [Write ''Missing values have been filled.''], None)
   \<and> \<not> filled_as_specified (Numeric (Float64 [None, None, None]))
         (Numeric (Float64 [None, None, None]))"
  by (simp add: fill_missing_def blank_age_table_def column_names_def getitem_def
      setitem_def isnull_any_def mean_def nanmean_def fillna_def filled_as_specified_def)

text \<open>
  Claim C10. In a table with a numeric column whose entries are all missing, the fill value
  of that column is the mean of no value, which is missing; whatever the loop does to the
  other columns, the column is as it was, every entry still missing. The loop ends without
  an exception when, besides, every other column can be filled.
\<close>

theorem all_missing_numeric_column_stays_missing:
  assumes "getitem d n = Some (Numeric (Float64 xs))" and "\<forall>x \<in> set xs. x = None"
  shows "mean (Float64 xs) = None
         \<and> getitem (fst (fill_missing d)) n = Some (Numeric (Float64 xs))
         \<and> isnull_sum (Numeric (Float64 xs)) = length xs
         \<and> (distinct (column_names d) \<and> list_all (\<lambda>(n, c). has_fill_value c) (columns d)
              \<longrightarrow> snd (fill_missing d) = None)"
proof -
  from assms(2) have empty: "notna_values xs = []" by (simp add: notna_values_empty_iff)
  have "filter (\<lambda>b. b) (map (\<lambda>x. x = None) xs) = map (\<lambda>x. x = None) xs"
    using assms(2) by (induction xs) auto
  then have "isnull_sum (Numeric (Float64 xs)) = length xs"
    by (simp add: isnull_sum_def)
  moreover have "distinct (column_names d) \<and> list_all (\<lambda>(n, c). has_fill_value c) (columns d)
       \<longrightarrow> snd (fill_missing d) = None"
    using fill_missing_completes [of d] by auto
  ultimately show ?thesis
    using mean_all_missing [OF empty] fill_loop_keeps_all_missing [OF assms(1) empty]
    by (simp add: fill_missing_def)
qed

theorem all_missing_numeric_column_stays_missing_witness:
  "getitem empty_column_table (StrLabel ''b'') = Some (Numeric (Float64 [None, None]))
   \<and> getitem (fst (fill_missing empty_column_table)) (StrLabel ''b'') = Some (Numeric (Float64 [None, None]))
   \<and> isnull_sum (Numeric (Float64 [None, None])) = 2
   \<and> snd (fill_missing empty_column_table) = None"
proof -
  have g: "getitem empty_column_table (StrLabel ''b'') = Some (Numeric (Float64 [None, None]))"
    by (simp add: empty_column_table_def getitem_def)
  have a: "\<forall>x \<in> set [None :: rat option, None]. x = None" by simp
  have w: "distinct (column_names empty_column_table)
           \<and> list_all (\<lambda>(n, c). has_fill_value c) (columns empty_column_table)"
    by (simp add: empty_column_table_def column_names_def has_fill_value_def)
  from all_missing_numeric_column_stays_missing [OF g a] w g show ?thesis by simp
qed

text \<open>
  Claim C2 says that after \<^verbatim>\<open>fill-missing\<close> no column has a missing value. For the
  table below the program reports that the missing values have been filled, and both
  entries of \<open>score\<close> are still missing.
\<close>

theorem fill_missing_leaves_missing_values:
  "handle_missing_values FillMissing [blank_score_table] 0 =
     ([blank_score_table], [Write ''Missing values have been filled.''], None)
   \<and> isnull_sums blank_score_table = [(StrLabel ''id'', 0), (StrLabel ''score'', 2)]"
  by (simp add: fill_missing_def blank_score_table_def column_names_def getitem_def
      setitem_def isnull_any_def mean_def nanmean_def fillna_def isnull_sums_def isnull_sum_def)

subsection \<open>The column drop\<close>

lemma drop_columns_subset:
  assumes "set labels \<subseteq> set (column_names d)"
  shows "drop_columns labels d = Inr (d\<lparr>columns := filter (\<lambda>(n, c). n \<notin> set labels) (columns d)\<rparr>)"
  using assms by (auto simp: drop_columns_def)

lemma filter_all_dropped:
  assumes "set (map fst cs) \<subseteq> set labels"
  shows "filter (\<lambda>(n, c). n \<notin> set labels) cs = []"
  using assms by (induction cs) auto

lemma multiselect_subset: "set (multiselect options picked) \<subseteq> set options"
  by (auto simp: multiselect_def)

lemma filter_multiselect:
  "filter (\<lambda>(n, c). n \<notin> set (multiselect (map fst cs) picked)) cs
   = filter (\<lambda>(n, c). n \<notin> set picked) cs"
  by (rule filter_cong) (force simp: multiselect_def)+

lemma dropped_cases:
  "dropped picked d =
     (if list_all is_str (multiselect (column_names d) picked) then
        Inr (d\<lparr>columns := filter (\<lambda>(n, c). n \<notin> set picked) (columns d)\<rparr>)
      else Inl TypeError)"
proof (cases "multiselect (column_names d) picked = []")
  case True
  then have "\<forall>x \<in> set picked. x \<notin> set (column_names d)"
    by (auto simp: multiselect_def filter_empty_conv)
  then have "filter (\<lambda>(n, c). n \<notin> set picked) (columns d) = columns d"
    by (auto simp: column_names_def filter_id_conv)
  with True show ?thesis by (simp add: dropped_def)
next
  case False
  then show ?thesis
    using drop_columns_subset [OF multiselect_subset, of d picked]
    by (simp add: dropped_def join_labels_def
        filter_multiselect [of "columns d" picked, folded column_names_def])
qed

lemma drop_selected_cases:
  "drop_selected picked h p =
     (if multiselect (column_names (h ! p)) picked = [] then
        (h, [Subheader ''Drop Columns''], Inr p)
      else if list_all is_str (multiselect (column_names (h ! p)) picked) then
        (h @ [(h ! p)\<lparr>columns := filter (\<lambda>(n, c). n \<notin> set picked) (columns (h ! p))\<rparr>],
         [Subheader ''Drop Columns'',
          Write (''Dropped columns: ''
                 @ join '', '' (map str_label (multiselect (column_names (h ! p)) picked))),
          Write (''Data shape after dropping columns: ''
                 @ str_shape
                     (shape ((h ! p)\<lparr>columns :=
                               filter (\<lambda>(n, c). n \<notin> set picked) (columns (h ! p))\<rparr>)))],
         Inr (length h))
      else
        (h @ [(h ! p)\<lparr>columns := filter (\<lambda>(n, c). n \<notin> set picked) (columns (h ! p))\<rparr>],
         [Subheader ''Drop Columns''], Inl TypeError))"
  using drop_columns_subset [OF multiselect_subset, of "h ! p" picked]
  by (simp add: drop_selected_def alloc_def Let_def join_labels_def
      filter_multiselect [of "columns (h ! p)" picked, folded column_names_def])

text \<open>For a drop set drawn from the column names, \<^verbatim>\<open>drop\<close> removes exactly the
  columns of the set; with string labels the program's step ends without an exception,
  and its working copy is the table after the drop.\<close>

lemma drop_columns_exact:
  assumes "set labels \<subseteq> set (column_names d)"
  shows "\<exists>d'. drop_columns labels d = Inr d'
           \<and> index d' = index d
           \<and> columns d' = filter (\<lambda>(n, c). n \<notin> set labels) (columns d)
           \<and> (set labels = set (column_names d) \<longrightarrow> columns d' = [] \<and> snd (shape d') = 0)"
proof -
  let ?d' = "d\<lparr>columns := filter (\<lambda>(n, c). n \<notin> set labels) (columns d)\<rparr>"
  have 1: "drop_columns labels d = Inr ?d'" by (rule drop_columns_subset [OF assms])
  have 2: "set labels = set (column_names d) \<longrightarrow> columns ?d' = [] \<and> snd (shape ?d') = 0"
  proof
    assume "set labels = set (column_names d)"
    then have "set (map fst (columns d)) \<subseteq> set labels" by (simp add: column_names_def)
    from filter_all_dropped [OF this] show "columns ?d' = [] \<and> snd (shape ?d') = 0"
      by (simp add: shape_def)
  qed
  have 0: "index ?d' = index d \<and> columns ?d' = filter (\<lambda>(n, c). n \<notin> set labels) (columns d)"
    by simp
  show ?thesis
    by (rule exI [of _ ?d']) (intro conjI 1 2 conjunct1 [OF 0] conjunct2 [OF 0])
qed

lemma drop_selected_str_labels:
  assumes "p < length h" and "list_all is_str picked"
  shows "\<exists>h' es q. drop_selected picked h p = (h', es, Inr q)
           \<and> h' ! q = (h ! p)\<lparr>columns := filter (\<lambda>(n, c). n \<notin> set picked) (columns (h ! p))\<rparr>
           \<and> (\<forall>b < length h. h' ! b = h ! b)"
proof -
  have s: "list_all is_str (multiselect (column_names (h ! p)) picked)"
    using assms(2) by (auto simp: multiselect_def list_all_iff)
  show ?thesis
  proof (cases "multiselect (column_names (h ! p)) picked = []")
    case True
    then have "\<forall>x \<in> set picked. x \<notin> set (column_names (h ! p))"
      by (auto simp: multiselect_def filter_empty_conv)
    then have "filter (\<lambda>(n, c). n \<notin> set picked) (columns (h ! p)) = columns (h ! p)"
      by (auto simp: column_names_def filter_id_conv)
    with True show ?thesis by (simp add: drop_selected_cases)
  next
    case False
    with s show ?thesis by (simp add: drop_selected_cases nth_append)
  qed
qed

text \<open>
  Claim C5 has no exception when every column is dropped. In the sheet below two labels
  are integers: \<^verbatim>\<open>drop\<close> returns the table without columns, and the message that
  follows raises \<^verbatim>\<open>TypeError\<close> in \<^verbatim>\<open>', '.join(columns_to_drop)\<close>, which ends the
  run.
\<close>

theorem drop_message_needs_str_labels:
  "drop_columns [StrLabel ''region'', IntLabel 2020, IntLabel 2021] year_sheet
     = Inr \<lparr>index = [0, 1], columns = []\<rparr>
   \<and> drop_selected [StrLabel ''region'', IntLabel 2020, IntLabel 2021] [year_sheet] 0
     = ([year_sheet, \<lparr>index = [0, 1], columns = []\<rparr>], [Subheader ''Drop Columns''],
        Inl TypeError)
   \<and> main drawing_env drop_all_years_widgets (Some (xlsx_upload [(''Sheet1'', year_sheet)]))
     = (page_top
        @ [Success ''File uploaded successfully!'',
           Header ''2. Data Cleaning & Preprocessing'', Subheader ''Handle Missing Values'',
           Subheader ''Drop Columns''],
        Raised TypeError)"
proof -
  have 1: "drop_columns [StrLabel ''region'', IntLabel 2020, IntLabel 2021] year_sheet
     = Inr \<lparr>index = [0, 1], columns = []\<rparr>"
    by (simp add: drop_columns_def year_sheet_def column_names_def)
  have 2: "drop_selected [StrLabel ''region'', IntLabel 2020, IntLabel 2021] [year_sheet] 0
     = ([year_sheet, \<lparr>index = [0, 1], columns = []\<rparr>], [Subheader ''Drop Columns''],
        Inl TypeError)"
    by code_simp
  have 3: "main drawing_env drop_all_years_widgets (Some (xlsx_upload [(''Sheet1'', year_sheet)]))
     = (page_top
        @ [Success ''File uploaded successfully!'',
           Header ''2. Data Cleaning & Preprocessing'', Subheader ''Handle Missing Values'',
           Subheader ''Drop Columns''],
        Raised TypeError)"
    by code_simp
  from 1 2 3 show ?thesis by simp
qed

subsection \<open>The original table\<close>

lemma handle_missing_values_store:
  assumes "p < length h"
  shows "case handle_missing_values s h p of
           (h', es, r) \<Rightarrow>
             length h' = length h \<and> (\<forall>b < length h. b \<noteq> p \<longrightarrow> h' ! b = h ! b)
             \<and> (case s of
                   NoStrategy \<Rightarrow> r = None \<and> h' ! p = h ! p
                 | DropRows \<Rightarrow> r = None \<and> h' ! p = dropna (h ! p)
                 | FillMissing \<Rightarrow> r = snd (fill_missing (h ! p)) \<and> h' ! p = fst (fill_missing (h ! p)))"
  using assms by (cases s) (auto simp: Let_def split: prod.splits option.splits)

lemma drop_selected_store:
  assumes "p < length h"
  shows "case drop_selected picked h p of
     (h', es, r) \<Rightarrow>
       length h \<le> length h' \<and> (\<forall>b < length h. h' ! b = h ! b)
       \<and> (case r of
             Inl e \<Rightarrow> dropped picked (h ! p) = Inl e
           | Inr q \<Rightarrow> q < length h' \<and> (q = p \<or> length h \<le> q)
                      \<and> dropped picked (h ! p) = Inr (h' ! q))"
proof (cases "multiselect (column_names (h ! p)) picked = []")
  case True
  then have "dropped picked (h ! p) = Inr (h ! p)" by (simp add: dropped_def)
  with True assms show ?thesis by (simp add: drop_selected_cases)
next
  case False
  then show ?thesis by (simp add: drop_selected_cases dropped_cases nth_append)
qed

text \<open>
  Claim C3. Whatever the strategy and the drop set, the sidebar section changes no object
  that was there before it, so the original table is what the loader made; the working
  copy is a new object; and its value, or the exception that ended the section, is the
  specification's function of the original table, the strategy and the drop set.
\<close>

theorem cleaner_leaves_the_original:
  assumes "df < length h"
  shows "case cleaner w h df of
           (h', es, r) \<Rightarrow>
             length h < length h' \<and> (\<forall>b < length h. h' ! b = h ! b)
             \<and> h' ! df = h ! df
             \<and> (case r of
                   Inl e \<Rightarrow>
                     spec_working_copy (missing_value_strategy w) (columns_to_drop w) (h ! df) = Inl e
                 | Inr df_processed \<Rightarrow>
                     length h \<le> df_processed \<and> df_processed < length h'
                     \<and> spec_working_copy (missing_value_strategy w) (columns_to_drop w) (h ! df)
                         = Inr (h' ! df_processed))"
proof -
  let ?h1 = "h @ [h ! df]"
  let ?p = "length h"
  obtain h2 es err where hm: "handle_missing_values (missing_value_strategy w) ?h1 ?p = (h2, es, err)"
    by (cases "handle_missing_values (missing_value_strategy w) ?h1 ?p") auto
  have p: "?p < length ?h1" by simp
  from handle_missing_values_store [OF p, of "missing_value_strategy w"] hm
  have len2: "length h2 = Suc (length h)"
    and old2: "\<forall>b < length h. h2 ! b = h ! b"
    and new2: "case missing_value_strategy w of
                 NoStrategy \<Rightarrow> err = None \<and> h2 ! ?p = h ! df
               | DropRows \<Rightarrow> err = None \<and> h2 ! ?p = dropna (h ! df)
               | FillMissing \<Rightarrow> err = snd (fill_missing (h ! df)) \<and> h2 ! ?p = fst (fill_missing (h ! df))"
    by (cases "missing_value_strategy w"; auto simp: nth_append)+
  show ?thesis
  proof (cases err)
    case (Some e)
    with new2 have "spec_working_copy (missing_value_strategy w) (columns_to_drop w) (h ! df) = Inl e"
      by (cases "missing_value_strategy w")
        (auto simp: spec_working_copy_def split: prod.splits)
    with Some hm len2 old2 assms show ?thesis
      by (simp add: cleaner_def copy_df_def alloc_def)
  next
    case None
    obtain h3 es' r where ds: "drop_selected (columns_to_drop w) h2 ?p = (h3, es', r)"
      by (cases "drop_selected (columns_to_drop w) h2 ?p") auto
    have "?p < length h2" using len2 by simp
    from drop_selected_store [OF this, of "columns_to_drop w"] ds len2
    have len3: "Suc (length h) \<le> length h3"
      and old3: "\<forall>b < Suc (length h). h3 ! b = h2 ! b"
      and out: "case r of
                  Inl e \<Rightarrow> dropped (columns_to_drop w) (h2 ! ?p) = Inl e
                | Inr q \<Rightarrow> q < length h3 \<and> length h \<le> q
                           \<and> dropped (columns_to_drop w) (h2 ! ?p) = Inr (h3 ! q)"
      by (auto split: sum.splits)
    have sw: "spec_working_copy (missing_value_strategy w) (columns_to_drop w) (h ! df)
              = dropped (columns_to_drop w) (h2 ! ?p)"
      using new2 None
      by (cases "missing_value_strategy w")
        (auto simp: spec_working_copy_def split: prod.splits)
    have c: "cleaner w h df
             = (h3,
                [Header ''2. Data Cleaning & Preprocessing'', Subheader ''Handle Missing Values'']
                @ es @ es',
                r)"
      using None hm ds by (simp add: cleaner_def copy_df_def alloc_def)
    show ?thesis
    proof (cases r)
      case (Inl e)
      with out sw len3 old3 old2 assms show ?thesis unfolding c by simp
    next
      case (Inr q)
      with out sw len3 old3 old2 assms show ?thesis unfolding c by simp
    qed
  qed
qed

theorem cleaner_leaves_the_original_witness:
  "0 < length [scenario_table]
   \<and> (case cleaner scenario_widgets [scenario_table] 0 of
         (h', es, r) \<Rightarrow>
           h' ! 0 = scenario_table \<and> r = Inr 2 \<and> h' ! 2 = scenario_age_only
           \<and> spec_working_copy FillMissing [StrLabel ''city''] scenario_table = Inr scenario_age_only)"
proof -
  have c: "cleaner scenario_widgets [scenario_table] 0 =
           ([scenario_table, scenario_filled, scenario_age_only],
            [Header ''2. Data Cleaning & Preprocessing'', Subheader ''Handle Missing Values'',
             Write ''Missing values have been filled.'', Subheader ''Drop Columns'',
             Write ''Dropped columns: city'',
             Write ''Data shape after dropping columns: (3, 1)''],
            Inr 2)"
    by (rule scenario_cleaner) (simp_all add: scenario_widgets_def)
  have s: "missing_value_strategy scenario_widgets = FillMissing"
    "columns_to_drop scenario_widgets = [StrLabel ''city'']"
    by (simp_all add: scenario_widgets_def)
  have "0 < length [scenario_table]" by simp
  from cleaner_leaves_the_original [OF this, of scenario_widgets] show ?thesis
    unfolding c s by simp
qed

subsection \<open>Previews\<close>

lemma astype_str_other: "\<not> is_object_dtype c \<Longrightarrow> astype_str c = c"
  by (cases c) auto

lemma astype_loop_columns:
  assumes "columns d = pre @ cs" and "distinct (map fst (pre @ cs))"
  shows "astype_loop (map fst cs) d
         = (d\<lparr>columns := pre @ map (\<lambda>(n, c). (n, astype_str c)) cs\<rparr>, None)"
  using assms
proof (induction cs arbitrary: pre d)
  case Nil
  then show ?case by simp
next
  case (Cons p cs)
  obtain n c where p: "p = (n, c)" by (cases p)
  from Cons.prems p have fresh: "n \<notin> fst ` set pre" by auto
  have get: "getitem d n = Some c"
    unfolding getitem_def Cons.prems(1) p by (rule map_of_app_fresh [OF fresh])
  let ?d' = "setitem d n (astype_str c)"
  have cols': "columns ?d' = (pre @ [(n, astype_str c)]) @ cs"
    using Cons.prems(1) fresh by (simp add: setitem_def p update_app_fresh)
  have dist': "distinct (map fst ((pre @ [(n, astype_str c)]) @ cs))"
    using Cons.prems(2) p by simp
  have same: "\<not> is_object_dtype c \<Longrightarrow> ?d' = d"
    using setitem_same [OF _ fresh, of d c cs] Cons.prems(1) p by (simp add: astype_str_other)
  have "astype_loop (map fst (p # cs)) d = astype_loop (map fst cs) ?d'"
    using get same by (simp add: p)
  also have "\<dots> = (?d'\<lparr>columns := (pre @ [(n, astype_str c)]) @ map (\<lambda>(n, c). (n, astype_str c)) cs\<rparr>, None)"
    by (rule Cons.IH [OF cols' dist'])
  also have "?d'\<lparr>columns := (pre @ [(n, astype_str c)]) @ map (\<lambda>(n, c). (n, astype_str c)) cs\<rparr>
             = d\<lparr>columns := pre @ map (\<lambda>(n, c). (n, astype_str c)) (p # cs)\<rparr>"
    by (simp add: setitem_def p)
  finally show ?case .
qed

lemma to_display_df_result:
  assumes "a < length h" and "distinct (column_names (h ! a))"
  shows "to_display_df h a
         = (h @ [(h ! a)\<lparr>columns := map (\<lambda>(n, c). (n, astype_str c)) (columns (h ! a))\<rparr>],
            Inr (length h))"
proof -
  have "astype_loop (map fst (columns (h ! a))) (h ! a)
        = ((h ! a)\<lparr>columns := [] @ map (\<lambda>(n, c). (n, astype_str c)) (columns (h ! a))\<rparr>, None)"
    by (rule astype_loop_columns) (use assms(2) in \<open>simp_all add: column_names_def\<close>)
  then show ?thesis
    by (simp add: to_display_df_def copy_df_def alloc_def column_names_def)
qed

lemma column_names_head: "column_names (head d) = column_names d"
  by (simp add: head_def column_names_def case_prod_unfold comp_def)

lemma preview_result:
  assumes "a < length h" and "distinct (column_names (h ! a))"
  shows "preview label h a
         = (h @ [head (h ! a),
                 \<lparr>index = take 5 (index (h ! a)),
                  columns = map (\<lambda>(n, c). (n, astype_str (take_rows 5 c))) (columns (h ! a))\<rparr>],
            [Expander label,
             Dataframe \<lparr>index = take 5 (index (h ! a)),
                        columns = map (\<lambda>(n, c). (n, astype_str (take_rows 5 c))) (columns (h ! a))\<rparr>],
            None)"
proof -
  let ?h1 = "h @ [head (h ! a)]"
  have "distinct (column_names (?h1 ! length h))" using assms(2) by (simp add: column_names_head)
  from to_display_df_result [OF _ this]
  have "to_display_df ?h1 (length h)
        = (?h1 @ [(head (h ! a))\<lparr>columns := map (\<lambda>(n, c). (n, astype_str c)) (columns (head (h ! a)))\<rparr>],
           Inr (Suc (length h)))"
    by simp
  moreover have "(h @ [x, y]) ! Suc (length h) = y" for x y :: dataframe
    by (simp add: nth_append)
  ultimately show ?thesis
    by (simp add: preview_def alloc_def head_def case_prod_unfold comp_def)
qed

lemma text_column_astype_str: "is_object_dtype c \<Longrightarrow> text_column (astype_str c)"
  by (cases c) (auto simp: text_column_def)

lemma is_object_dtype_take_rows: "is_object_dtype (take_rows k c) = is_object_dtype c"
proof (cases c)
  case (Numeric x)
  then show ?thesis by (cases x) auto
qed auto

lemma previewed_as_coded_map:
  "previewed_as_coded d
     \<lparr>index = i, columns = map (\<lambda>(n, c). (n, astype_str (take_rows 5 c))) (columns d)\<rparr>"
proof -
  have "list_all2 (\<lambda>(n, c) (n', c'). n' = n \<and>
                  (if is_object_dtype c then c' = astype_str (take_rows 5 c) \<and> text_column c'
                   else c' = take_rows 5 c))
          cs (map (\<lambda>(n, c). (n, astype_str (take_rows 5 c))) cs)"
    for cs :: "(label \<times> column) list"
    by (induction cs)
      (auto simp: text_column_astype_str is_object_dtype_take_rows astype_str_other)
  then show ?thesis by (simp add: previewed_as_coded_def)
qed

text \<open>
  Claim C9, as amended. In the preview of the first five rows every \<^verbatim>\<open>object\<close>
  column is shown as text (\<^verbatim>\<open>str\<close> of each value, a missing one as \<^verbatim>\<open>nan\<close>), every
  other column (numbers, booleans, dates) is shown as it is, and no object made before,
  the previewed table among them, is changed.
\<close>

theorem preview_coerces_object_columns:
  assumes "a < length h" and "distinct (column_names (h ! a))"
  shows "\<exists>h' shown. preview label h a = (h', [Expander label, Dataframe shown], None)
           \<and> (\<forall>b < length h. h' ! b = h ! b)
           \<and> index shown = take 5 (index (h ! a))
           \<and> previewed_as_coded (h ! a) shown"
  unfolding preview_result [OF assms]
  by (intro exI conjI refl) (auto simp: nth_append previewed_as_coded_map)

theorem preview_coerces_object_columns_witness:
  "0 < length [scenario_table] \<and> distinct (column_names ([scenario_table] ! 0))
   \<and> (\<exists>h' shown. preview ''Show Raw Data Preview (First 5 Rows)'' [scenario_table] 0
          = (h', [Expander ''Show Raw Data Preview (First 5 Rows)'', Dataframe shown], None)
        \<and> h' ! 0 = scenario_table
        \<and> previewed_as_coded scenario_table shown)"
proof -
  have a: "0 < length [scenario_table]" by simp
  have d: "distinct (column_names ([scenario_table] ! 0))"
    by (simp add: scenario_table_def column_names_def)
  from preview_coerces_object_columns [OF a d, of "''Show Raw Data Preview (First 5 Rows)''"]
  show ?thesis using a d by fastforce
qed

text \<open>
  Claim C9 as stated has every column that is not numeric shown as text. A date column is
  not numeric (neither for \<^verbatim>\<open>is_numeric_dtype\<close> nor for \<^verbatim>\<open>select_dtypes\<close>) and not
  \<^verbatim>\<open>object\<close>: the preview shows it as it is.
\<close>

theorem preview_leaves_datetime_columns:
  "preview ''Show Raw Data Preview (First 5 Rows)'' [timeline_table] 0
     = ([timeline_table, timeline_table, timeline_shown],
        [Expander ''Show Raw Data Preview (First 5 Rows)'', Dataframe timeline_shown], None)
   \<and> \<not> previewed_as_claimed timeline_table timeline_shown"
proof -
  have d: "distinct (column_names ([timeline_table] ! 0))"
    by (simp add: timeline_table_def column_names_def)
  have "preview ''Show Raw Data Preview (First 5 Rows)'' [timeline_table] 0
     = ([timeline_table, timeline_table, timeline_shown],
        [Expander ''Show Raw Data Preview (First 5 Rows)'', Dataframe timeline_shown], None)"
    unfolding preview_result [OF _ d, simplified]
    by (simp add: timeline_table_def timeline_shown_def head_def)
  moreover have "\<not> previewed_as_claimed timeline_table timeline_shown"
    by (simp add: previewed_as_claimed_def timeline_table_def timeline_shown_def text_column_def)
  ultimately show ?thesis by simp
qed

subsection \<open>Plots\<close>


text \<open>
  Claim C6. When the heat map is picked and the working copy has no number column, the
  plot section shows its headings and a warning, draws nothing (no plotting call is made,
  so none can raise), and ends without an exception.
\<close>

theorem heatmap_without_numeric_columns_warns:
  assumes "numeric_columns d = []" and "plot_type w = CorrelationHeatmap"
  shows "visualizer env w d =
           ([Header ''Data Visualization'', Subheader ''Correlation Heatmap'',
             Warning ''No numerical columns available to create a heatmap.''],
            None)"
  using assms by (simp add: visualizer_def correlation_heatmap_def)

theorem heatmap_without_numeric_columns_warns_witness:
  "numeric_columns city_table = [] \<and> plot_type scenario_widgets = CorrelationHeatmap
   \<and> visualizer raising_env scenario_widgets city_table =
        ([Header ''Data Visualization'', Subheader ''Correlation Heatmap'',
          Warning ''No numerical columns available to create a heatmap.''],
         None)"
proof -
  have n: "numeric_columns city_table = []" by (simp add: numeric_columns_def city_table_def)
  have p: "plot_type scenario_widgets = CorrelationHeatmap" by (simp add: scenario_widgets_def)
  from heatmap_without_numeric_columns_warns [OF n p, of raising_env] n p show ?thesis by simp
qed












subsection \<open>The report\<close>

text \<open>For a working copy with a column the report is the five sections in their order,
  and for three rows and two columns it holds the two lines of the scenario.\<close>

lemma generate_summary_sections:
  assumes "columns d \<noteq> []"
  shows "generate_summary env d =
           Inr (''Data Analysis Summary Report\<newline>''
                @ replicate 30 (CHR ''='') @ ''\<newline>\<newline>''
                @ ''1. Data Shape\<newline>''
                @ ''Number of Rows: '' @ str_nat (length (index d)) @ ''\<newline>''
                @ ''Number of Columns: '' @ str_nat (length (columns d)) @ ''\<newline>\<newline>''
                @ ''2. Data Info\<newline>''
                @ info env d
                @ ''\<newline>\<newline>3. Descriptive Statistics\<newline>''
                @ description_to_string env (Describe d)
                @ ''\<newline>\<newline>4. Missing Values Count\<newline>''
                @ counts_to_string env (isnull_sums d))"
  using assms by (simp add: generate_summary_def describe_def shape_def)

lemma generate_summary_three_by_two:
  assumes "shape d = (3, 2)"
  shows "\<exists>t. generate_summary env d = Inr t
           \<and> sublist ''Number of Rows: 3'' t \<and> sublist ''Number of Columns: 2'' t"
proof -
  from assms have l: "length (index d) = 3" "length (columns d) = 2" by (simp_all add: shape_def)
  then have ne: "columns d \<noteq> []" by auto
  have r: "''Number of Rows: '' @ str_nat 3 = ''Number of Rows: 3''" by simp
  have c: "''Number of Columns: '' @ str_nat 2 = ''Number of Columns: 2''" by simp
  let ?a = "''Data Analysis Summary Report\<newline>'' @ replicate 30 (CHR ''='')
            @ ''\<newline>\<newline>'' @ ''1. Data Shape\<newline>''"
  let ?b = "''\<newline>\<newline>'' @ ''2. Data Info\<newline>'' @ info env d
            @ ''\<newline>\<newline>3. Descriptive Statistics\<newline>''
            @ description_to_string env (Describe d)
            @ ''\<newline>\<newline>4. Missing Values Count\<newline>''
            @ counts_to_string env (isnull_sums d)"
  have t: "generate_summary env d
           = Inr (?a @ ''Number of Rows: 3'' @ ''\<newline>'' @ ''Number of Columns: 2'' @ ?b)"
    unfolding generate_summary_sections [OF ne] l by simp
  have "sublist ''Number of Rows: 3''
          (?a @ ''Number of Rows: 3'' @ (''\<newline>'' @ ''Number of Columns: 2'' @ ?b))"
    by (rule sublist_appendI)
  moreover have "sublist ''Number of Columns: 2''
          ((?a @ ''Number of Rows: 3'' @ ''\<newline>'') @ ''Number of Columns: 2'' @ ?b)"
    by (rule sublist_appendI)
  ultimately show ?thesis unfolding t by (intro exI conjI refl) simp_all
qed

text \<open>
  Claim C8 has a report for any working copy. For the working copy left by dropping every
  column, \<^verbatim>\<open>describe()\<close> raises: the run ends in the summary panel, before the
  report, and \<^verbatim>\<open>generate_summary\<close> on that table raises as well.
\<close>

theorem no_summary_of_a_table_without_columns:
  "main env drop_all_widgets (Some (csv_upload scenario_table)) =
     (page_top
      @ [Success ''File uploaded successfully!'',
         Header ''2. Data Cleaning & Preprocessing'', Subheader ''Handle Missing Values'',
         Subheader ''Drop Columns'', Write ''Dropped columns: age, city'',
         Write ''Data shape after dropping columns: (3, 0)'',
         Header ''Data Exploration'',
         Expander ''Show Raw Data Preview (First 5 Rows)'', Dataframe scenario_table,
         Expander ''Show Processed Data Preview (First 5 Rows)'',
         Dataframe \<lparr>index = [0, 1, 2], columns = []\<rparr>,
         Expander ''Show Data Summary'',
         WriteShape ''Shape of Processed DataFrame:'' (3, 0),
         Text (info env \<lparr>index = [0, 1, 2], columns = []\<rparr>),
         Write ''Descriptive Statistics:''],
      Raised ValueError)
   \<and> generate_summary env \<lparr>index = [0, 1, 2], columns = []\<rparr> = Inl ValueError"
  by (simp add: main_def csv_upload_def load_data_def endswith_def explore_def cleaner_def
      copy_df_def alloc_def drop_all_widgets_def drop_selected_def join_labels_def multiselect_def
      scenario_table_def column_names_def drop_columns_def inspector_def preview_def
      to_display_df_def head_def getitem_def setitem_def data_summary_def describe_def
      shape_def str_shape_def generate_summary_def)

subsection \<open>Failures\<close>

text \<open>The page top and the cleaning, preview and summary steps show no figure, no error
  message and no download button.\<close>

lemma plain_shows:
  assumes "list_all plain es"
  shows "\<not> shows_error es" and "\<not> shows_download es" and "Pyplot ch \<notin> set es"
  using assms by (auto simp: shows_error_def shows_download_def list_all_iff)

lemma page_top_plain: "list_all plain page_top"
  by (simp add: page_top_def)

lemma handle_missing_values_plain:
  "list_all plain (fst (snd (handle_missing_values s h p)))"
  by (cases s) (auto simp: Let_def split: prod.splits option.splits)

lemma drop_selected_plain: "list_all plain (fst (snd (drop_selected picked h p)))"
  by (simp add: drop_selected_cases)

lemma cleaner_plain: "list_all plain (fst (snd (cleaner w h df)))"
proof -
  obtain h1 p where c: "copy_df h df = (h1, p)" by (cases "copy_df h df")
  obtain h2 es err where hm: "handle_missing_values (missing_value_strategy w) h1 p = (h2, es, err)"
    by (cases "handle_missing_values (missing_value_strategy w) h1 p") auto
  obtain h3 es' r where ds: "drop_selected (columns_to_drop w) h2 p = (h3, es', r)"
    by (cases "drop_selected (columns_to_drop w) h2 p") auto
  have "list_all plain es"
    using handle_missing_values_plain [of "missing_value_strategy w" h1 p] hm by simp
  moreover have "list_all plain es'"
    using drop_selected_plain [of "columns_to_drop w" h2 p] ds by simp
  ultimately show ?thesis
    by (cases err) (simp_all add: cleaner_def c hm ds)
qed

lemma preview_plain: "list_all plain (fst (snd (preview l h a)))"
  by (auto simp: preview_def split: prod.splits sum.splits)

lemma data_summary_plain: "list_all plain (fst (data_summary env d))"
  by (auto simp: data_summary_def split: sum.splits)

lemma inspector_plain: "list_all plain (fst (snd (inspector env h df p)))"
proof -
  obtain h1 es1 r1 where p1: "preview ''Show Raw Data Preview (First 5 Rows)'' h df = (h1, es1, r1)"
    by (cases "preview ''Show Raw Data Preview (First 5 Rows)'' h df") auto
  obtain h2 es2 r2
    where p2: "preview ''Show Processed Data Preview (First 5 Rows)'' h1 p = (h2, es2, r2)"
    by (cases "preview ''Show Processed Data Preview (First 5 Rows)'' h1 p") auto
  obtain es3 r3 where s: "data_summary env (h2 ! p) = (es3, r3)"
    by (cases "data_summary env (h2 ! p)")
  have "list_all plain es1"
    using preview_plain [of "''Show Raw Data Preview (First 5 Rows)''" h df] p1 by simp
  moreover have "list_all plain es2"
    using preview_plain [of "''Show Processed Data Preview (First 5 Rows)''" h1 p] p2 by simp
  moreover have "list_all plain es3" using data_summary_plain [of env "h2 ! p"] s by simp
  ultimately show ?thesis
    by (cases r1; cases r2; cases r3) (simp_all add: inspector_def p1 p2 s)
qed

text \<open>Only the plots call the plotting library: the other steps do the same whatever
  the plotting calls do.\<close>

lemma data_summary_draw: "data_summary (env\<lparr>draw := f\<rparr>) d = data_summary env d"
  by (cases "describe d") (simp_all add: data_summary_def)

lemma inspector_draw: "inspector (env\<lparr>draw := f\<rparr>) h df p = inspector env h df p"
  by (simp only: inspector_def data_summary_draw)

lemma generate_summary_draw:
  "generate_summary (env\<lparr>draw := f\<rparr>) d = generate_summary env d"
  by (cases "describe d") (simp_all add: generate_summary_def)

lemma reporter_draw: "reporter (env\<lparr>draw := f\<rparr>) d = reporter env d"
  by (simp only: reporter_def generate_summary_draw)

lemma reporter_no_figure: "Pyplot ch \<notin> set (fst (reporter env d))"
  by (auto simp: reporter_def split: sum.splits)

text \<open>A plotting call that raises where the same run with plotting calls that all
  draw shows a figure: the exception leaves the plot, the visualisation step and the
  exploration, and nothing shown before it is an error message or the download
  button.\<close>

lemma histogram_raises:
  assumes "Pyplot ch \<in> set (fst (histogram (env\<lparr>draw := \<lambda>ch. None\<rparr>) w d))"
    and "draw env ch = Some e"
  shows "histogram env w d = ([], Some e)"
  using assms by (auto simp: histogram_def plot_def split: option.splits if_splits)

lemma box_plot_raises:
  assumes "Pyplot ch \<in> set (fst (box_plot (env\<lparr>draw := \<lambda>ch. None\<rparr>) w d))"
    and "draw env ch = Some e"
  shows "box_plot env w d = ([], Some e)"
  using assms by (auto simp: box_plot_def plot_def split: option.splits if_splits)

lemma scatter_plot_raises:
  assumes "Pyplot ch \<in> set (fst (scatter_plot (env\<lparr>draw := \<lambda>ch. None\<rparr>) w d))"
    and "draw env ch = Some e"
  shows "scatter_plot env w d = ([], Some e)"
  using assms
  by (auto simp: scatter_plot_def plot_def Let_def split: option.splits if_splits sum.splits)

lemma bar_chart_raises:
  assumes "Pyplot ch \<in> set (fst (bar_chart (env\<lparr>draw := \<lambda>ch. None\<rparr>) w d))"
    and "draw env ch = Some e"
  shows "bar_chart env w d = ([], Some e)"
  using assms
  by (auto simp: bar_chart_def plot_def split: option.splits if_splits sum.splits)

lemma correlation_heatmap_raises:
  assumes "Pyplot ch \<in> set (fst (correlation_heatmap (env\<lparr>draw := \<lambda>ch. None\<rparr>) d))"
    and "draw env ch = Some e"
  shows "correlation_heatmap env d = ([], Some e)"
  using assms by (auto simp: correlation_heatmap_def plot_def split: option.splits if_splits)

lemma visualizer_raises:
  assumes "Pyplot ch \<in> set (fst (visualizer (env\<lparr>draw := \<lambda>ch. None\<rparr>) w d))"
    and "draw env ch = Some e"
  shows "\<exists>es. visualizer env w d = (es, Some e) \<and> list_all plain es"
proof (cases "plot_type w")
  case Histogram
  with assms(1) have "Pyplot ch \<in> set (fst (histogram (env\<lparr>draw := \<lambda>ch. None\<rparr>) w d))"
    by (auto simp: visualizer_def split: prod.splits)
  from histogram_raises [OF this assms(2)] Histogram show ?thesis by (simp add: visualizer_def)
next
  case BoxPlot
  with assms(1) have "Pyplot ch \<in> set (fst (box_plot (env\<lparr>draw := \<lambda>ch. None\<rparr>) w d))"
    by (auto simp: visualizer_def split: prod.splits)
  from box_plot_raises [OF this assms(2)] BoxPlot show ?thesis by (simp add: visualizer_def)
next
  case ScatterPlot
  with assms(1) have "Pyplot ch \<in> set (fst (scatter_plot (env\<lparr>draw := \<lambda>ch. None\<rparr>) w d))"
    by (auto simp: visualizer_def split: prod.splits)
  from scatter_plot_raises [OF this assms(2)] ScatterPlot show ?thesis
    by (simp add: visualizer_def)
next
  case BarChart
  with assms(1) have "Pyplot ch \<in> set (fst (bar_chart (env\<lparr>draw := \<lambda>ch. None\<rparr>) w d))"
    by (auto simp: visualizer_def split: prod.splits)
  from bar_chart_raises [OF this assms(2)] BarChart show ?thesis by (simp add: visualizer_def)
next
  case CorrelationHeatmap
  with assms(1)
  have "Pyplot ch \<in> set (fst (correlation_heatmap (env\<lparr>draw := \<lambda>ch. None\<rparr>) d))"
    by (auto simp: visualizer_def split: prod.splits)
  from correlation_heatmap_raises [OF this assms(2)] CorrelationHeatmap show ?thesis
    by (simp add: visualizer_def)
qed

lemma explore_raises:
  assumes "Pyplot ch \<in> set (fst (explore (env\<lparr>draw := \<lambda>ch. None\<rparr>) w h df))"
    and "draw env ch = Some e"
  shows "\<exists>es. explore env w h df = (es, Raised e) \<and> list_all plain es"
proof -
  let ?env0 = "env\<lparr>draw := \<lambda>ch. None\<rparr>"
  obtain h1 es1 r1 where c: "cleaner w h df = (h1, es1, r1)"
    by (cases "cleaner w h df") auto
  have p1: "list_all plain es1" using cleaner_plain [of w h df] c by simp
  show ?thesis
  proof (cases r1)
    case (Inl e1)
    with assms(1) c have "Pyplot ch \<in> set es1" by (simp add: explore_def)
    with plain_shows(3) [OF p1] show ?thesis by simp
  next
    case (Inr p)
    obtain h2 es2 r2 where i: "inspector env h1 df p = (h2, es2, r2)"
      by (cases "inspector env h1 df p") auto
    have i0: "inspector ?env0 h1 df p = (h2, es2, r2)" using i by (simp only: inspector_draw)
    have p2: "list_all plain es2" using inspector_plain [of env h1 df p] i by simp
    show ?thesis
    proof (cases r2)
      case (Some e2)
      with assms(1) c Inr i0 have "Pyplot ch \<in> set (es1 @ es2)" by (simp add: explore_def)
      with plain_shows(3) [OF p1] plain_shows(3) [OF p2] show ?thesis by simp
    next
      case None
      obtain es3 r3 where v0: "visualizer ?env0 w (h2 ! p) = (es3, r3)"
        by (cases "visualizer ?env0 w (h2 ! p)")
      obtain es4 r4 where r: "reporter ?env0 (h2 ! p) = (es4, r4)"
        by (cases "reporter ?env0 (h2 ! p)")
      have "Pyplot ch \<notin> set es4" using reporter_no_figure [of ch ?env0 "h2 ! p"] r by simp
      moreover have "Pyplot ch \<in> set (es1 @ es2 @ es3 @ es4)"
        using assms(1) c Inr i0 None v0 r
        by (cases r3; cases r4) (auto simp: explore_def)
      ultimately have "Pyplot ch \<in> set es3"
        using plain_shows(3) [OF p1] plain_shows(3) [OF p2] by simp
      then have "Pyplot ch \<in> set (fst (visualizer ?env0 w (h2 ! p)))" using v0 by simp
      from visualizer_raises [OF this assms(2)] obtain es3'
        where v: "visualizer env w (h2 ! p) = (es3', Some e)" and p3: "list_all plain es3'"
        by blast
      have "explore env w h df = (es1 @ es2 @ es3', Raised e)"
        using c Inr i None v by (simp add: explore_def)
      with p1 p2 p3 show ?thesis by simp
    qed
  qed
qed

text \<open>The filling loop and the row drop keep the column labels, so a label of the
  selected table that the drop widget holds is dropped by line 96; the message of
  line 97 then joins the dropped labels, and raises on a label that is no string.\<close>

lemma getitem_in_names: "getitem d col = Some c \<Longrightarrow> col \<in> set (column_names d)"
  by (auto simp: getitem_def column_names_def dest: map_of_SomeD intro: rev_image_eqI)

lemma column_names_setitem:
  "col \<in> set (column_names d) \<Longrightarrow> column_names (setitem d col c) = column_names d"
  by (simp add: column_names_def setitem_def update_keys)

lemma column_names_fill_loop: "column_names (fst (fill_loop cols d)) = column_names d"
proof (induction cols arbitrary: d)
  case Nil
  then show ?case by simp
next
  case (Cons col cols)
  show ?case
  proof (cases "getitem d col")
    case None
    then show ?thesis by simp
  next
    case (Some c)
    note names = column_names_setitem [OF getitem_in_names [OF Some]]
    show ?thesis
    proof (cases "fill_column c")
      case (Inl e)
      then show ?thesis unfolding fill_loop_step [OF Some] by simp
    next
      case (Inr c')
      then show ?thesis
        unfolding fill_loop_step [OF Some] using Cons [of "setitem d col c'"] Cons [of d] names
        by simp
    qed
  qed
qed

lemma column_names_dropna: "column_names (dropna d) = column_names d"
  by (simp add: dropna_def column_names_def Let_def case_prod_unfold comp_def)

lemma cleaner_type_error:
  assumes "l \<in> set (columns_to_drop w)" and "l \<in> set (column_names (h ! df))"
    and "\<not> is_str l"
    and "missing_value_strategy w = FillMissing \<longrightarrow> snd (fill_missing (h ! df)) = None"
  shows "\<exists>h' es. cleaner w h df = (h', es, Inl TypeError)"
proof -
  let ?h1 = "h @ [h ! df]"
  let ?p = "length h"
  obtain h2 es err where hm: "handle_missing_values (missing_value_strategy w) ?h1 ?p = (h2, es, err)"
    by (cases "handle_missing_values (missing_value_strategy w) ?h1 ?p") auto
  have "?p < length ?h1" by simp
  from handle_missing_values_store [OF this, of "missing_value_strategy w"] hm assms(4)
  have err: "err = None" and names: "column_names (h2 ! ?p) = column_names (h ! df)"
    by (cases "missing_value_strategy w";
        auto simp: column_names_dropna column_names_fill_loop fill_missing_def)+
  let ?m = "multiselect (column_names (h2 ! ?p)) (columns_to_drop w)"
  have "l \<in> set ?m" using assms(1,2) names by (simp add: multiselect_def)
  then have "?m \<noteq> []" and "\<not> list_all is_str ?m"
    using assms(3) by (auto simp: list_all_iff)
  then obtain h3 es' where "drop_selected (columns_to_drop w) h2 ?p = (h3, es', Inl TypeError)"
    by (simp add: drop_selected_cases)
  with hm err show ?thesis by (simp add: cleaner_def copy_df_def alloc_def)
qed

text \<open>The loader shows nothing when it yields a table; the run is the page top, the
  loader's output and the exploration.\<close>

lemma load_data_loaded: "load_data file = (es, Some loaded) \<Longrightarrow> es = []"
  by (auto simp: load_data_def split: if_splits sum.splits)

lemma load_data_plain_or_error:
  "load_data file = (es, None) \<Longrightarrow> Pyplot ch \<notin> set es"
  by (auto simp: load_data_def split: if_splits sum.splits)

lemma main_explore:
  assumes "load_data file = (es, Some loaded)" and "select_sheet w loaded = (h, Inr df)"
  shows "main env w (Some file)
         = (page_top @ [Success ''File uploaded successfully!''] @ fst (explore env w h df),
            snd (explore env w h df))"
  using assms load_data_loaded [OF assms(1)]
  by (cases "explore env w h df") (simp add: main_def)

text \<open>The three ways a run meets a failure: the message of line 97 on a label that is
  no string, a plotting call that raises, a parse that fails.\<close>

lemma main_type_error:
  assumes "load_data file = (es, Some loaded)" and "select_sheet w loaded = (h, Inr df)"
    and "l \<in> set (columns_to_drop w)" and "l \<in> set (column_names (h ! df))"
    and "\<not> is_str l"
    and "missing_value_strategy w = FillMissing \<longrightarrow> snd (fill_missing (h ! df)) = None"
  shows "snd (main env w (Some file)) = Raised TypeError
         \<and> \<not> shows_error (fst (main env w (Some file)))
         \<and> \<not> shows_download (fst (main env w (Some file)))"
proof -
  from cleaner_type_error [OF assms(3-6)] obtain h' es'
    where c: "cleaner w h df = (h', es', Inl TypeError)" by blast
  have "list_all plain es'" using cleaner_plain [of w h df] c by simp
  then have "list_all plain (page_top @ [Success ''File uploaded successfully!''] @ es')"
    using page_top_plain by simp
  moreover have "explore env w h df = (es', Raised TypeError)" using c by (simp add: explore_def)
  ultimately show ?thesis
    unfolding main_explore [OF assms(1,2)] using plain_shows(1,2) by simp
qed

lemma main_plot_error:
  assumes "Pyplot ch \<in> set (fst (main (env\<lparr>draw := \<lambda>ch. None\<rparr>) w (Some file)))"
    and "draw env ch = Some e"
  shows "snd (main env w (Some file)) = Raised e
         \<and> \<not> shows_error (fst (main env w (Some file)))
         \<and> \<not> shows_download (fst (main env w (Some file)))"
proof -
  let ?env0 = "env\<lparr>draw := \<lambda>ch. None\<rparr>"
  obtain es l where ld: "load_data file = (es, l)" by (cases "load_data file")
  have top: "Pyplot ch \<notin> set (page_top @ [Success ''File uploaded successfully!''])"
    using plain_shows(3) [OF page_top_plain] by simp
  show ?thesis
  proof (cases l)
    case None
    with assms(1) ld top load_data_plain_or_error [OF ld [unfolded None]] show ?thesis
      by (simp add: main_def)
  next
    case (Some loaded)
    obtain h r where ss: "select_sheet w loaded = (h, r)" by (cases "select_sheet w loaded")
    show ?thesis
    proof (cases r)
      case (Inl e')
      with assms(1) ld Some ss top load_data_loaded [OF ld [unfolded Some]] show ?thesis
        by (simp add: main_def)
    next
      case (Inr df)
      note m = main_explore [OF ld [unfolded Some] ss [unfolded Inr]]
      have "Pyplot ch \<in> set (fst (explore ?env0 w h df))"
        using assms(1) top unfolding m [of ?env0] by simp
      from explore_raises [OF this assms(2)] obtain es'
        where "explore env w h df = (es', Raised e)" and "list_all plain es'" by blast
      moreover from this have
        "list_all plain (page_top @ [Success ''File uploaded successfully!''] @ es')"
        using page_top_plain by simp
      ultimately show ?thesis unfolding m [of env] using plain_shows(1,2) by simp
    qed
  qed
qed

lemma main_load_error:
  assumes "endswith (name file) ''.csv'' \<and> read_csv file = Inl msg
           \<or> \<not> endswith (name file) ''.csv'' \<and> endswith (name file) ''.xlsx''
             \<and> read_excel file = Inl msg"
  shows "main env w (Some file)
         = (page_top @ [Success ''File uploaded successfully!'',
                        Error (''Error loading data: '' @ msg)],
            Stopped)"
  using assms by (auto simp: main_def load_data_def)

text \<open>Claim C4 as stated (a failure in a cleaning or plotting step lets the run go on and
  show an error message) does not hold. The sheet \<open>year_sheet\<close> is what the loader
  yields for an \<open>.xlsx\<close> workbook whose header row holds the text \<open>region\<close> and the
  numbers 2020 and 2021. With column 2020 picked in the drop widget, line 96 drops the
  column and line 97 raises \<open>TypeError\<close> when it joins the labels: the exception leaves
  \<open>main\<close>, the page holds the two subheaders of the cleaning step and no error message,
  and none of the previews, the summary, the plots and the report run.\<close>

theorem numeric_label_ends_the_run:
  "main drawing_env drop_year_widgets (Some (xlsx_upload [(''Sheet1'', year_sheet)]))
     = (page_top
        @ [Success ''File uploaded successfully!'',
           Header ''2. Data Cleaning & Preprocessing'', Subheader ''Handle Missing Values'',
           Subheader ''Drop Columns''],
        Raised TypeError)
   \<and> snd (snd (cleaner drop_year_widgets [year_sheet] 0)) = Inl TypeError
   \<and> \<not> ends_with_message
         (main drawing_env drop_year_widgets (Some (xlsx_upload [(''Sheet1'', year_sheet)])))"
proof -
  have 1: "main drawing_env drop_year_widgets (Some (xlsx_upload [(''Sheet1'', year_sheet)]))
     = (page_top
        @ [Success ''File uploaded successfully!'',
           Header ''2. Data Cleaning & Preprocessing'', Subheader ''Handle Missing Values'',
           Subheader ''Drop Columns''],
        Raised TypeError)"
    by code_simp
  have 2: "snd (snd (cleaner drop_year_widgets [year_sheet] 0)) = Inl TypeError"
    by code_simp
  from 1 2 show ?thesis by (simp add: ends_with_message_def)
qed

text \<open>Claim C4, as amended: a failure raised inside a cleaning step or a plotting step is
  not caught by the program. When a label picked in the drop widget is a label of the
  selected table and no string (and the fill strategy, if chosen, completes), the run
  ends with \<open>TypeError\<close>; when a plotting call raises on the figure that the run would
  show, the run ends with that exception. In both cases the page holds no error message
  of the program's and no download button. The only handler is the loader's: a parse
  that fails is shown as \<open>Error loading data: ...\<close> and the run stops.\<close>

theorem step_failures_are_not_caught:
  "(\<forall>env w file es loaded h df l.
      load_data file = (es, Some loaded) \<and> select_sheet w loaded = (h, Inr df)
      \<and> l \<in> set (columns_to_drop w) \<and> l \<in> set (column_names (h ! df)) \<and> \<not> is_str l
      \<and> (missing_value_strategy w = FillMissing \<longrightarrow> snd (fill_missing (h ! df)) = None)
      \<longrightarrow> snd (main env w (Some file)) = Raised TypeError
          \<and> \<not> shows_error (fst (main env w (Some file)))
          \<and> \<not> shows_download (fst (main env w (Some file))))
   \<and> (\<forall>env w file ch e.
        Pyplot ch \<in> set (fst (main (env\<lparr>draw := \<lambda>ch. None\<rparr>) w (Some file)))
        \<and> draw env ch = Some e
        \<longrightarrow> snd (main env w (Some file)) = Raised e
            \<and> \<not> shows_error (fst (main env w (Some file)))
            \<and> \<not> shows_download (fst (main env w (Some file))))
   \<and> (\<forall>env w file msg.
        endswith (name file) ''.csv'' \<and> read_csv file = Inl msg
        \<longrightarrow> main env w (Some file)
            = (page_top @ [Success ''File uploaded successfully!'',
                           Error (''Error loading data: '' @ msg)],
               Stopped))
   \<and> (\<forall>env w file msg.
        \<not> endswith (name file) ''.csv'' \<and> endswith (name file) ''.xlsx''
        \<and> read_excel file = Inl msg
        \<longrightarrow> main env w (Some file)
            = (page_top @ [Success ''File uploaded successfully!'',
                           Error (''Error loading data: '' @ msg)],
               Stopped))"
proof (intro conjI allI impI)
  fix env w upload es loaded h df l
  assume "load_data upload = (es, Some loaded) \<and> select_sheet w loaded = (h, Inr df)
      \<and> l \<in> set (columns_to_drop w) \<and> l \<in> set (column_names (h ! df)) \<and> \<not> is_str l
      \<and> (missing_value_strategy w = FillMissing \<longrightarrow> snd (fill_missing (h ! df)) = None)"
  then have a: "load_data upload = (es, Some loaded)" "select_sheet w loaded = (h, Inr df)"
    "l \<in> set (columns_to_drop w)" "l \<in> set (column_names (h ! df))" "\<not> is_str l"
    "missing_value_strategy w = FillMissing \<longrightarrow> snd (fill_missing (h ! df)) = None"
    by simp_all
  note r = main_type_error [OF a, of env]
  from r show "snd (main env w (Some upload)) = Raised TypeError" by simp
  from r show "\<not> shows_error (fst (main env w (Some upload)))" by simp
  from r show "\<not> shows_download (fst (main env w (Some upload)))" by simp
next
  fix env w upload ch e
  assume "Pyplot ch \<in> set (fst (main (env\<lparr>draw := \<lambda>ch. None\<rparr>) w (Some upload)))
          \<and> draw env ch = Some e"
  then have a: "Pyplot ch \<in> set (fst (main (env\<lparr>draw := \<lambda>ch. None\<rparr>) w (Some upload)))"
    "draw env ch = Some e" by simp_all
  note r = main_plot_error [OF a]
  from r show "snd (main env w (Some upload)) = Raised e" by simp
  from r show "\<not> shows_error (fst (main env w (Some upload)))" by simp
  from r show "\<not> shows_download (fst (main env w (Some upload)))" by simp
next
  fix env w msg and upload :: uploaded_file
  assume "endswith (name upload) ''.csv'' \<and> read_csv upload = Inl msg"
  then show "main env w (Some upload)
            = (page_top @ [Success ''File uploaded successfully!'',
                           Error (''Error loading data: '' @ msg)],
               Stopped)"
    by (intro main_load_error) simp
next
  fix env w msg and upload :: uploaded_file
  assume "\<not> endswith (name upload) ''.csv'' \<and> endswith (name upload) ''.xlsx''
        \<and> read_excel upload = Inl msg"
  then show "main env w (Some upload)
            = (page_top @ [Success ''File uploaded successfully!'',
                           Error (''Error loading data: '' @ msg)],
               Stopped)"
    by (intro main_load_error) simp
qed

text \<open>The theorem at the workbook with the numeric header, at a box plot of a number
  column without any value, and at an empty \<open>.csv\<close> file.\<close>

theorem step_failures_are_not_caught_witness:
  "load_data (xlsx_upload [(''Sheet1'', year_sheet)])
     = ([], Some (Sheets [(''Sheet1'', year_sheet)]))
   \<and> select_sheet drop_year_widgets (Sheets [(''Sheet1'', year_sheet)]) = ([year_sheet], Inr 0)
   \<and> IntLabel 2020 \<in> set (columns_to_drop drop_year_widgets)
   \<and> IntLabel 2020 \<in> set (column_names ([year_sheet] ! 0))
   \<and> \<not> is_str (IntLabel 2020)
   \<and> snd (main drawing_env drop_year_widgets (Some (xlsx_upload [(''Sheet1'', year_sheet)])))
     = Raised TypeError
   \<and> Pyplot (Boxplot (Numeric (Float64 [None, None])) ''Box Plot of score'')
       \<in> set (fst (main (boxplot_env\<lparr>draw := \<lambda>ch. None\<rparr>) box_plot_widgets
                     (Some (csv_upload blank_score_table))))
   \<and> draw boxplot_env (Boxplot (Numeric (Float64 [None, None])) ''Box Plot of score'')
     = Some (LibraryError ''boxplot'')
   \<and> snd (main boxplot_env box_plot_widgets (Some (csv_upload blank_score_table)))
     = Raised (LibraryError ''boxplot'')
   \<and> \<not> shows_error (fst (main boxplot_env box_plot_widgets (Some (csv_upload blank_score_table))))
   \<and> endswith (name unreadable_upload) ''.csv''
   \<and> read_csv unreadable_upload = Inl ''No columns to parse from file''
   \<and> main drawing_env scenario_widgets (Some unreadable_upload)
     = (page_top @ [Success ''File uploaded successfully!'',
                    Error ''Error loading data: No columns to parse from file''],
        Stopped)"
proof -
  note cleaning = step_failures_are_not_caught [THEN conjunct1, rule_format]
  note plotting = step_failures_are_not_caught [THEN conjunct2, THEN conjunct1, rule_format]
  note loading = step_failures_are_not_caught
    [THEN conjunct2, THEN conjunct2, THEN conjunct1, rule_format]
  have a: "load_data (xlsx_upload [(''Sheet1'', year_sheet)])
             = ([], Some (Sheets [(''Sheet1'', year_sheet)]))
           \<and> select_sheet drop_year_widgets (Sheets [(''Sheet1'', year_sheet)])
             = ([year_sheet], Inr 0)
           \<and> IntLabel 2020 \<in> set (columns_to_drop drop_year_widgets)
           \<and> IntLabel 2020 \<in> set (column_names ([year_sheet] ! 0))
           \<and> \<not> is_str (IntLabel 2020)
           \<and> (missing_value_strategy drop_year_widgets = FillMissing
                \<longrightarrow> snd (fill_missing ([year_sheet] ! 0)) = None)"
    by (simp add: load_data_def xlsx_upload_def endswith_def selectbox_def
        drop_year_widgets_def year_sheet_def column_names_def)
  have b: "Pyplot (Boxplot (Numeric (Float64 [None, None])) ''Box Plot of score'')
             \<in> set (fst (main (boxplot_env\<lparr>draw := \<lambda>ch. None\<rparr>) box_plot_widgets
                           (Some (csv_upload blank_score_table))))
           \<and> draw boxplot_env (Boxplot (Numeric (Float64 [None, None])) ''Box Plot of score'')
             = Some (LibraryError ''boxplot'')"
    by code_simp
  have c: "endswith (name unreadable_upload) ''.csv''
           \<and> read_csv unreadable_upload = Inl ''No columns to parse from file''"
    by (simp add: unreadable_upload_def endswith_def)
  from cleaning [OF a, of drawing_env] plotting [OF b] loading [OF c, of drawing_env scenario_widgets]
    a b c
  show ?thesis by simp
qed

end
